theory Spec2Isabelle
  imports Main "HOL-Library.AList"
begin

section \<open>Values, documents and the store\<close>

text \<open>
  The server keeps four MongoDB collections: courses, users, enrollments and reviews.
  JSON values of request bodies and of free-form document fields are the type \<open>jv\<close>;
  they are scalars and objects, and numbers are the integers here (fractional JSON numbers
  and arrays are outside the model).

  A course document is addressed by its \<open>_id\<close> in every write of the program, and
  MongoDB keeps \<open>_id\<close> unique, so the courses collection is a map from ObjectId to the
  rest of the document. The fields the handlers read or write with a fixed type are
  record fields; every other field of the document (courseTitle, image, price, createdAt,
  updatedAt, averageRating, ...) lives in the association list \<open>other\<close>.
  The \<open>status\<close> field is absent on a legacy course; when present it is any value,
  the string \<open>approved\<close> among them. Enrollments, users and reviews are lists in
  insertion order.

  An ObjectId is twelve bytes. \<open>new ObjectId(str)\<close> reads them from 24 hexadecimal
  digits written in either case, so two spellings that differ only in the case of a digit
  are the same ObjectId; the bytes are kept as the lower-case digits. An enrollment keeps
  the course id as the string of the request, a review keeps the ObjectId.
\<close>

datatype jv = JNum int | JStr string | JBool bool | JNull | JObj "(string \<times> jv) list"

datatype objectid = Oid string

definition lower_hex :: "char \<Rightarrow> char" where
  "lower_hex c =
     (if c = CHR ''A'' then CHR ''a'' else if c = CHR ''B'' then CHR ''b''
      else if c = CHR ''C'' then CHR ''c'' else if c = CHR ''D'' then CHR ''d''
      else if c = CHR ''E'' then CHR ''e'' else if c = CHR ''F'' then CHR ''f'' else c)"

definition ObjectId :: "string \<Rightarrow> objectid" where
  "ObjectId str = Oid (map lower_hex str)"

record course =
  instructorEmail :: string
  seats :: int
  enrollmentCount :: int
  status :: "jv option"
  other :: "(string \<times> jv) list"

record user =
  email :: string
  role :: "string option"

record enrollment =
  e_id :: nat
  userEmail :: string
  courseId :: string
  courseTitle :: string
  enrolledAt :: nat

record review =
  courseObjectId :: objectid
  reviewer :: string
  rating :: int

record store =
  courses :: "objectid \<rightharpoonup> course"
  users :: "user list"
  enrollments :: "enrollment list"
  reviews :: "review list"

text \<open>What a handler sends: \<open>res.status(n).json({error | message: m})\<close>, and for a
  created enrollment the identifier as well.\<close>

datatype response = Reply nat string | ReplyId nat string nat

subsection \<open>The driver's operations\<close>

definition is_hex :: "char \<Rightarrow> bool" where
  "is_hex c = (c \<in> set ''0123456789abcdefABCDEF'')"

text \<open>\<open>ObjectId.isValid\<close> on a string: 24 hexadecimal digits.\<close>

definition ObjectId_isValid :: "string \<Rightarrow> bool" where
  "ObjectId_isValid s = (length s = 24 \<and> list_all is_hex s)"

definition countDocuments :: "('a \<Rightarrow> bool) \<Rightarrow> 'a list \<Rightarrow> nat" where
  "countDocuments P xs = length (filter P xs)"

text \<open>\<open>deleteOne\<close> removes the first matching document and reports \<open>deletedCount\<close>.\<close>

fun deleteOne :: "('a \<Rightarrow> bool) \<Rightarrow> 'a list \<Rightarrow> 'a list \<times> nat" where
  "deleteOne P [] = ([], 0)"
| "deleteOne P (x # xs) =
     (if P x then (xs, 1) else (case deleteOne P xs of (ys, n) \<Rightarrow> (x # ys, n)))"

definition deleteMany :: "('a \<Rightarrow> bool) \<Rightarrow> 'a list \<Rightarrow> 'a list" where
  "deleteMany P xs = filter (\<lambda>x. \<not> P x) xs"

text \<open>The driver gives an inserted enrollment an \<open>_id\<close> no stored enrollment has.\<close>

definition fresh_id :: "enrollment list \<Rightarrow> nat" where
  "fresh_id es = Suc (fold (\<lambda>e m. max (e_id e) m) es 0)"

definition enrollments_insertOne ::
  "string \<Rightarrow> string \<Rightarrow> string \<Rightarrow> nat \<Rightarrow> enrollment list \<Rightarrow> enrollment list \<times> nat" where
  "enrollments_insertOne u cid t now es =
     (let i = fresh_id es
      in (es @ [\<lparr>e_id = i, userEmail = u, courseId = cid, courseTitle = t, enrolledAt = now\<rparr>], i))"

text \<open>
  \<open>coursesCollection.updateOne({_id: oid, ...cond}, update)\<close>: the document with that
  \<open>_id\<close> is updated when it also meets \<open>cond\<close>. The result is the new collection with
  \<open>matchedCount\<close> and \<open>modifiedCount\<close>, or \<open>None\<close> when the store rejects the update
  (the driver throws).
\<close>

definition courses_updateOne ::
  "objectid \<Rightarrow> (course \<Rightarrow> bool) \<Rightarrow> (course \<Rightarrow> course option) \<Rightarrow> (objectid \<rightharpoonup> course)
     \<Rightarrow> ((objectid \<rightharpoonup> course) \<times> nat \<times> nat) option" where
  "courses_updateOne oid cond upd m =
     (case m oid of
        None \<Rightarrow> Some (m, 0, 0)
      | Some c \<Rightarrow>
          if \<not> cond c then Some (m, 0, 0)
          else (case upd c of
                  None \<Rightarrow> None
                | Some c' \<Rightarrow> Some (m(oid \<mapsto> c'), 1, if c' = c then 0 else 1)))"

text \<open>\<open>{ $inc: { seats: a, enrollmentCount: b } }\<close> on the two numeric fields.\<close>

definition inc_fields :: "int \<Rightarrow> int \<Rightarrow> course \<Rightarrow> course option" where
  "inc_fields a b c = Some (c\<lparr>seats := seats c + a, enrollmentCount := enrollmentCount c + b\<rparr>)"

section \<open>Enrollment: POST /enrollments\<close>

text \<open>
  The body fields \<open>userEmail\<close>, \<open>courseId\<close>, \<open>courseTitle\<close> are strings or absent;
  JavaScript's \<open>!x\<close> holds for an absent field and for the empty string.
\<close>

record enroll_req =
  body_userEmail :: "string option"
  body_courseId :: "string option"
  body_courseTitle :: "string option"

definition falsy :: "string option \<Rightarrow> bool" where
  "falsy x = (case x of None \<Rightarrow> True | Some v \<Rightarrow> v = [])"

definition same_enrollment :: "string \<Rightarrow> string \<Rightarrow> enrollment \<Rightarrow> bool" where
  "same_enrollment u cid e = (userEmail e = u \<and> courseId e = cid)"

text \<open>
  The checks of the handler up to the capacity pre-check, in the order of the source.
  They only read the store. \<open>Inl\<close> is the rejection sent, \<open>Inr\<close> the validated fields
  with which the reservation is attempted.
\<close>

definition enroll_admit :: "store \<Rightarrow> string \<Rightarrow> enroll_req \<Rightarrow> response + (string \<times> string \<times> string)" where
  "enroll_admit s requestingUserEmail req =
     (if falsy (body_userEmail req) \<or> falsy (body_courseId req) \<or> falsy (body_courseTitle req)
      then Inl (Reply 400 ''Missing details'')
      else case (body_userEmail req, body_courseId req, body_courseTitle req) of
        (Some u, Some cid, Some t) \<Rightarrow>
          if requestingUserEmail \<noteq> u then Inl (Reply 403 ''Email mismatch'')
          else if \<not> ObjectId_isValid cid then Inl (Reply 400 ''Invalid Course ID'')
          else (case find (same_enrollment u cid) (enrollments s) of
            Some existing \<Rightarrow> Inl (Reply 400 ''Already enrolled'')
          | None \<Rightarrow>
              if countDocuments (\<lambda>e. userEmail e = u) (enrollments s) \<ge> 3
              then Inl (Reply 400 ''Enrollment limit'')
              else (case courses s (ObjectId cid) of
                None \<Rightarrow> Inl (Reply 404 ''Course not found'')
              | Some c \<Rightarrow>
                  if status c \<noteq> None \<and> status c \<noteq> Some (JStr ''approved'')
                  then Inl (Reply 400 ''Course not approved'')
                  else if seats c \<le> 0 then Inl (Reply 400 ''No seats available'')
                  else Inr (u, cid, t)))
      | _ \<Rightarrow> Inl (Reply 400 ''Missing details''))"

text \<open>The conditional seat-claiming update:
  \<open>updateOne({_id, seats: {$gt: 0}}, {$inc: {seats: -1, enrollmentCount: 1}})\<close>.\<close>

definition claim_seat :: "string \<Rightarrow> (objectid \<rightharpoonup> course) \<Rightarrow> ((objectid \<rightharpoonup> course) \<times> nat \<times> nat) option" where
  "claim_seat cid m = courses_updateOne (ObjectId cid) (\<lambda>c. seats c > 0) (inc_fields (- 1) 1) m"

text \<open>
  The reservation: insert the enrollment, claim the seat, delete the inserted enrollment
  again when no document was modified. It runs on the store as it is when the insert
  happens, which under concurrent requests need not be the store the checks read.
\<close>

definition enroll_reserve :: "store \<Rightarrow> string \<times> string \<times> string \<Rightarrow> nat \<Rightarrow> store \<times> response" where
  "enroll_reserve s x now =
     (case x of (u, cid, t) \<Rightarrow>
        (case enrollments_insertOne u cid t now (enrollments s) of (es, insertedId) \<Rightarrow>
           (case claim_seat cid (courses s) of
              None \<Rightarrow> (s\<lparr>enrollments := es\<rparr>, Reply 500 ''Enrollment failed'')
            | Some (cs, matchedCount, modifiedCount) \<Rightarrow>
                if modifiedCount = 0
                then (s\<lparr>courses := cs,
                        enrollments := fst (deleteOne (\<lambda>e. e_id e = insertedId) es)\<rparr>,
                      Reply 409 ''Seat conflict'')
                else (s\<lparr>courses := cs, enrollments := es\<rparr>, ReplyId 201 ''Enrolled'' insertedId))))"

definition post_enrollments :: "store \<Rightarrow> string \<Rightarrow> enroll_req \<Rightarrow> nat \<Rightarrow> store \<times> response" where
  "post_enrollments s requestingUserEmail req now =
     (case enroll_admit s requestingUserEmail req of
        Inl r \<Rightarrow> (s, r)
      | Inr x \<Rightarrow> enroll_reserve s x now)"

section \<open>Unenrollment: DELETE /enrollments/:email/:courseId\<close>

definition delete_enrollments :: "store \<Rightarrow> string \<Rightarrow> string \<Rightarrow> string \<Rightarrow> store \<times> response" where
  "delete_enrollments s requestingUserEmail emailParam cid =
     (if requestingUserEmail \<noteq> emailParam then (s, Reply 403 ''Unauthorized'')
      else if \<not> ObjectId_isValid cid then (s, Reply 400 ''Invalid ID'')
      else (case deleteOne (same_enrollment emailParam cid) (enrollments s) of (es, deletedCount) \<Rightarrow>
        if deletedCount = 0 then (s, Reply 404 ''Not enrolled'')
        else (case courses_updateOne (ObjectId cid) (\<lambda>c. True) (inc_fields 1 (- 1)) (courses s) of
                None \<Rightarrow> (s\<lparr>enrollments := es\<rparr>, Reply 500 ''Unenroll failed'')
              | Some (cs, matchedCount, modifiedCount) \<Rightarrow>
                  (s\<lparr>courses := cs, enrollments := es\<rparr>, Reply 200 ''Unenrolled''))))"

section \<open>The authorization middleware\<close>

text \<open>
  \<open>jwt.verify\<close> either fails or yields the decoded payload, of which the handlers use
  the email claim (absent when the token carries none). A middleware either calls
  \<open>next()\<close> with \<open>req.userRole\<close> set, or answers the request itself. A lookup in the
  users collection may throw; \<open>storage_fails\<close> says whether it does.
\<close>

datatype verdict = Invalid | Decoded "string option"

datatype gate = Proceed string | Reject response

text \<open>\<open>user?.role || 'student'\<close>\<close>

definition role_or_student :: "user option \<Rightarrow> string" where
  "role_or_student found =
     (case found of
        None \<Rightarrow> ''student''
      | Some u \<Rightarrow> (case role u of None \<Rightarrow> ''student'' | Some r \<Rightarrow> if r = [] then ''student'' else r))"

definition getUserRole :: "bool \<Rightarrow> user list \<Rightarrow> string option \<Rightarrow> gate" where
  "getUserRole storage_fails us decoded_email =
     (case decoded_email of
        None \<Rightarrow> Reject (Reply 401 ''Unauthorized: Missing user email in token.'')
      | Some e \<Rightarrow>
          if e = [] then Reject (Reply 401 ''Unauthorized: Missing user email in token.'')
          else if storage_fails then Reject (Reply 500 ''Server error checking user role.'')
          else Proceed (role_or_student (find (\<lambda>u. email u = e) us)))"


definition verifyAdmin :: "string \<Rightarrow> response option" where
  "verifyAdmin userRole =
     (if userRole \<noteq> ''admin'' then Some (Reply 403 ''Forbidden: Requires Admin role.'') else None)"

definition verifyInstructor :: "string \<Rightarrow> response option" where
  "verifyInstructor userRole =
     (if userRole \<noteq> ''instructor'' \<and> userRole \<noteq> ''admin''
      then Some (Reply 403 ''Forbidden: Requires Instructor or Admin role.'') else None)"

section \<open>Course deletion: DELETE /courses/:id\<close>

definition courses_deleteOne :: "objectid \<Rightarrow> (objectid \<rightharpoonup> course) \<Rightarrow> (objectid \<rightharpoonup> course) \<times> nat" where
  "courses_deleteOne oid m = (m(oid := None), case m oid of None \<Rightarrow> 0 | Some c \<Rightarrow> 1)"

definition delete_courses :: "store \<Rightarrow> string \<Rightarrow> string \<Rightarrow> string \<Rightarrow> store \<times> response" where
  "delete_courses s requestingUserEmail userRole idParam =
     (if \<not> ObjectId_isValid idParam then (s, Reply 400 ''Invalid ID'')
      else (case courses s (ObjectId idParam) of
        None \<Rightarrow> (s, Reply 404 ''Course not found'')
      | Some existingCourse \<Rightarrow>
          if userRole = ''instructor'' \<and> instructorEmail existingCourse \<noteq> requestingUserEmail
          then (s, Reply 403 ''Forbidden: Not your course'')
          else (case courses_deleteOne (ObjectId idParam) (courses s) of (cs, deletedCount) \<Rightarrow>
            if deletedCount = 0 then (s\<lparr>courses := cs\<rparr>, Reply 404 ''Delete failed'')
            else (s\<lparr>courses := cs,
                    enrollments := deleteMany (\<lambda>e. courseId e = idParam) (enrollments s),
                    reviews := deleteMany (\<lambda>r. courseObjectId r = ObjectId idParam) (reviews s)\<rparr>,
                  Reply 200 ''Course and related data deleted''))))"

text \<open>The route with its middleware: \<open>getUserRole\<close>, \<open>verifyInstructor\<close>, the handler.\<close>

definition delete_courses_route :: "store \<Rightarrow> bool \<Rightarrow> string option \<Rightarrow> string \<Rightarrow> store \<times> response" where
  "delete_courses_route s storage_fails decoded_email idParam =
     (case getUserRole storage_fails (users s) decoded_email of
        Reject r \<Rightarrow> (s, r)
      | Proceed userRole \<Rightarrow>
          (case verifyInstructor userRole of
             Some r \<Rightarrow> (s, r)
           | None \<Rightarrow>
               delete_courses s (case decoded_email of None \<Rightarrow> [] | Some e \<Rightarrow> e) userRole idParam))"

section \<open>Course update: PUT /course/:id\<close>

text \<open>
  \<open>parseInt\<close> and \<open>parseFloat\<close> are JavaScript's, not the program's. The handler
  is defined for any two such functions, each given by what it returns for a value of the
  body: \<open>None\<close> for NaN, otherwise the number, a whole number in this model. A value for
  which JavaScript returns a fraction or an infinity is outside the model.
\<close>

text \<open>The seven \<open>delete updatedData.k\<close> statements, in the order of the source.\<close>

definition strip_protected :: "(string \<times> jv) list \<Rightarrow> (string \<times> jv) list" where
  "strip_protected updatedData =
     AList.delete ''reviewCount'' (AList.delete ''averageRating'' (AList.delete ''status''
       (AList.delete ''enrollmentCount'' (AList.delete ''createdAt''
         (AList.delete ''instructorEmail'' (AList.delete ''_id'' updatedData))))))"

definition normalise_seats ::
  "(jv \<Rightarrow> int option) \<Rightarrow> (string \<times> jv) list \<Rightarrow> (string \<times> jv) list option" where
  "normalise_seats parseInt updatedData =
     (case map_of updatedData ''seats'' of
        None \<Rightarrow> Some updatedData
      | Some v \<Rightarrow>
          (case parseInt v of
             None \<Rightarrow> None
           | Some seatsNum \<Rightarrow>
               if seatsNum < 0 then None
               else Some (AList.update ''seats'' (JNum seatsNum) updatedData)))"

definition normalise_price ::
  "(jv \<Rightarrow> int option) \<Rightarrow> (string \<times> jv) list \<Rightarrow> (string \<times> jv) list option" where
  "normalise_price parseFloat updatedData =
     (case map_of updatedData ''price'' of
        None \<Rightarrow> Some updatedData
      | Some v \<Rightarrow>
          (case parseFloat v of
             None \<Rightarrow> None
           | Some priceNum \<Rightarrow>
               if priceNum < 0 then None
               else Some (AList.update ''price'' (JNum priceNum) updatedData)))"

subsection \<open>The \<open>$set\<close> operator\<close>

text \<open>
  A key of a \<open>$set\<close> document is a path: its components are the pieces between the
  dots. \<open>status.reason\<close> addresses the field \<open>reason\<close> inside the field
  \<open>status\<close>.
\<close>

fun split_at_dots :: "string \<Rightarrow> string \<Rightarrow> string list" where
  "split_at_dots acc [] = [rev acc]"
| "split_at_dots acc (c # cs) =
     (if c = CHR ''.'' then rev acc # split_at_dots [] cs else split_at_dots (c # acc) cs)"

definition field_path :: "string \<Rightarrow> string list" where
  "field_path k = split_at_dots [] k"

text \<open>
  The server refuses an update with a path that has an empty component, or a component
  that starts with \<open>$\<close> (the positional operators, which need an array match that
  these updates do not have; other names of that form are refused by servers before 5.0).
  It also refuses an update in which one path is the beginning of another, or equal to it.
  A refused update changes nothing.
\<close>

definition valid_component :: "string \<Rightarrow> bool" where
  "valid_component p = (case p of [] \<Rightarrow> False | c # cs \<Rightarrow> c \<noteq> CHR ''$'')"

definition overlaps :: "string list \<Rightarrow> string list \<Rightarrow> bool" where
  "overlaps p q = (take (length q) p = q \<or> take (length p) q = p)"

fun conflict_free :: "string list list \<Rightarrow> bool" where
  "conflict_free [] = True"
| "conflict_free (p # ps) = (list_all (\<lambda>q. \<not> overlaps p q) ps \<and> conflict_free ps)"

definition paths_accepted :: "string list list \<Rightarrow> bool" where
  "paths_accepted ps = (list_all (list_all valid_component) ps \<and> conflict_free ps)"

text \<open>
  Writing a value at a path of a document. The last component names the field written.
  On the way there, an absent field is created as an embedded document, an embedded
  document is entered, and any other value stops the update: the server cannot create a
  field inside a number, a string, a boolean or null.
\<close>

fun nest :: "string list \<Rightarrow> jv \<Rightarrow> jv" where
  "nest [] v = v"
| "nest (k # ks) v = JObj [(k, nest ks v)]"

fun set_path :: "string list \<Rightarrow> jv \<Rightarrow> (string \<times> jv) list \<Rightarrow> (string \<times> jv) list option" where
  "set_path [] v d = None"
| "set_path [k] v d = Some (AList.update k v d)"
| "set_path (k # k' # ks) v d =
     (case map_of d k of
        None \<Rightarrow> Some (AList.update k (nest (k' # ks) v) d)
      | Some (JObj sub) \<Rightarrow>
          (case set_path (k' # ks) v sub of
             None \<Rightarrow> None
           | Some sub' \<Rightarrow> Some (AList.update k (JObj sub') d))
      | Some x \<Rightarrow> None)"

text \<open>
  \<open>$set\<close> of one key on a course document. \<open>_id\<close> cannot be written. The fields
  \<open>instructorEmail\<close>, \<open>seats\<close> and \<open>enrollmentCount\<close> hold a string and two
  numbers: a key that is the field's name writes the field when the value has the
  field's type (the store of the model keeps no other value there), and a longer path
  into it is refused, the field being a scalar. \<open>status\<close> is written by its name, and
  a longer path into it creates it when it is absent, enters it when it is an embedded
  document and is refused otherwise. Every other path goes into the free-form fields.
\<close>

definition set_field :: "string \<Rightarrow> jv \<Rightarrow> course \<Rightarrow> course option" where
  "set_field k v c =
     (case field_path k of
        [] \<Rightarrow> None
      | f # rest \<Rightarrow>
          if f = ''_id'' then None
          else if f = ''instructorEmail'' then
            (case (rest, v) of ([], JStr x) \<Rightarrow> Some (c\<lparr>instructorEmail := x\<rparr>) | _ \<Rightarrow> None)
          else if f = ''seats'' then
            (case (rest, v) of ([], JNum n) \<Rightarrow> Some (c\<lparr>seats := n\<rparr>) | _ \<Rightarrow> None)
          else if f = ''enrollmentCount'' then
            (case (rest, v) of ([], JNum n) \<Rightarrow> Some (c\<lparr>enrollmentCount := n\<rparr>) | _ \<Rightarrow> None)
          else if f = ''status'' then
            (if rest = [] then Some (c\<lparr>status := Some v\<rparr>)
             else (case status c of
                     None \<Rightarrow> Some (c\<lparr>status := Some (nest rest v)\<rparr>)
                   | Some (JObj sub) \<Rightarrow>
                       (case set_path rest v sub of
                          None \<Rightarrow> None
                        | Some sub' \<Rightarrow> Some (c\<lparr>status := Some (JObj sub')\<rparr>))
                   | Some x \<Rightarrow> None))
          else (case set_path (f # rest) v (other c) of
                  None \<Rightarrow> None
                | Some d \<Rightarrow> Some (c\<lparr>other := d\<rparr>)))"

fun apply_sets :: "(string \<times> jv) list \<Rightarrow> course \<Rightarrow> course option" where
  "apply_sets [] c = Some c"
| "apply_sets ((k, v) # kvs) c =
     (case set_field k v c of None \<Rightarrow> None | Some c' \<Rightarrow> apply_sets kvs c')"

definition mongo_set :: "(string \<times> jv) list \<Rightarrow> course \<Rightarrow> course option" where
  "mongo_set kvs c =
     (if paths_accepted (map (\<lambda>kv. field_path (fst kv)) kvs) then apply_sets kvs c else None)"

subsection \<open>The handler\<close>

text \<open>\<open>new Date()\<close> is the number of the moment, \<open>now\<close>.\<close>

definition put_course ::
  "(jv \<Rightarrow> int option) \<Rightarrow> (jv \<Rightarrow> int option) \<Rightarrow> store \<Rightarrow> string \<Rightarrow> string \<Rightarrow> string
     \<Rightarrow> (string \<times> jv) list \<Rightarrow> int \<Rightarrow> store \<times> response" where
  "put_course parseInt parseFloat s requestingUserEmail userRole idParam updatedData now =
     (if \<not> ObjectId_isValid idParam then (s, Reply 400 ''Invalid ID'')
      else (case courses s (ObjectId idParam) of
        None \<Rightarrow> (s, Reply 404 ''Course not found'')
      | Some existingCourse \<Rightarrow>
          if userRole = ''instructor'' \<and> instructorEmail existingCourse \<noteq> requestingUserEmail
          then (s, Reply 403 ''Forbidden: Not your course'')
          else (case normalise_seats parseInt (strip_protected updatedData) of
            None \<Rightarrow> (s, Reply 400 ''Invalid Seats.'')
          | Some d \<Rightarrow>
              (case normalise_price parseFloat d of
                 None \<Rightarrow> (s, Reply 400 ''Invalid Price.'')
               | Some d' \<Rightarrow>
                   (case courses_updateOne (ObjectId idParam) (\<lambda>c. True)
                           (mongo_set (AList.update ''updatedAt'' (JNum now) d')) (courses s) of
                      None \<Rightarrow> (s, Reply 500 ''Course update failed'')
                    | Some (cs, matchedCount, modifiedCount) \<Rightarrow>
                        if matchedCount = 0 then (s\<lparr>courses := cs\<rparr>, Reply 404 ''Course not found'')
                        else if modifiedCount = 0
                        then (s\<lparr>courses := cs\<rparr>, Reply 200 ''No changes detected'')
                        else (s\<lparr>courses := cs\<rparr>, Reply 200 ''Course updated successfully''))))))"

definition put_course_route ::
  "(jv \<Rightarrow> int option) \<Rightarrow> (jv \<Rightarrow> int option) \<Rightarrow> store \<Rightarrow> bool \<Rightarrow> string option \<Rightarrow> string
     \<Rightarrow> (string \<times> jv) list \<Rightarrow> int \<Rightarrow> store \<times> response" where
  "put_course_route parseInt parseFloat s storage_fails decoded_email idParam updatedData now =
     (case getUserRole storage_fails (users s) decoded_email of
        Reject r \<Rightarrow> (s, r)
      | Proceed userRole \<Rightarrow>
          (case verifyInstructor userRole of
             Some r \<Rightarrow> (s, r)
           | None \<Rightarrow>
               put_course parseInt parseFloat s (case decoded_email of None \<Rightarrow> [] | Some e \<Rightarrow> e)
                 userRole idParam updatedData now))"

section \<open>Course approval: PATCH /admin/courses/:id/status\<close>

definition patch_admin_courses_status :: "store \<Rightarrow> string \<Rightarrow> string option \<Rightarrow> store \<times> response" where
  "patch_admin_courses_status s idParam st =
     (case st of
        None \<Rightarrow> (s, Reply 400 ''Invalid status'')
      | Some x \<Rightarrow>
          if x \<notin> set [''approved'', ''rejected'', ''pending''] then (s, Reply 400 ''Invalid status'')
          else if \<not> ObjectId_isValid idParam then (s, Reply 400 ''Invalid ID'')
          else (case courses_updateOne (ObjectId idParam) (\<lambda>c. True) (mongo_set [(''status'', JStr x)])
                       (courses s) of
                  None \<Rightarrow> (s, Reply 500 ''Update failed'')
                | Some (cs, matchedCount, modifiedCount) \<Rightarrow>
                    if matchedCount = 0 then (s\<lparr>courses := cs\<rparr>, Reply 404 ''Course not found'')
                    else (s\<lparr>courses := cs\<rparr>, Reply 200 (''Status updated to '' @ x))))"

section \<open>The seat endpoint of index.js: PATCH /courses/:id/seats\<close>

text \<open>
  index.js, the earlier server file of the repository, has a route that adds a number
  from the request body to \<open>seats\<close>. Its only check is \<open>typeof increment === 'number'\<close>;
  \<open>new ObjectId(id)\<close> throws inside the \<open>try\<close> on an id that is not well-formed.
\<close>

definition inc_seats :: "int \<Rightarrow> course \<Rightarrow> course option" where
  "inc_seats n c = Some (c\<lparr>seats := seats c + n\<rparr>)"

definition patch_courses_seats :: "store \<Rightarrow> string \<Rightarrow> jv option \<Rightarrow> store \<times> response" where
  "patch_courses_seats s idParam increment =
     (case increment of
        Some (JNum n) \<Rightarrow>
          if \<not> ObjectId_isValid idParam then (s, Reply 500 ''Seat update failed'')
          else (case courses_updateOne (ObjectId idParam) (\<lambda>c. True) (inc_seats n) (courses s) of
                  None \<Rightarrow> (s, Reply 500 ''Seat update failed'')
                | Some (cs, matchedCount, modifiedCount) \<Rightarrow>
                    if modifiedCount = 0
                    then (s\<lparr>courses := cs\<rparr>, Reply 404 ''Course not found or seat not updated'')
                    else (s\<lparr>courses := cs\<rparr>, Reply 200 ''Seat count updated successfully''))
      | _ \<Rightarrow> (s, Reply 400 ''Missing or invalid increment value''))"

section \<open>The course update of index.js: PUT /course/:id\<close>

text \<open>
  index.js has this route too, without the middleware and without the \<open>delete\<close>
  statements: the body goes into \<open>$set\<close> as it is, and a reply other than 404 or 500
  is \<open>Course updated\<close>.
\<close>

definition put_course_index :: "store \<Rightarrow> string \<Rightarrow> (string \<times> jv) list \<Rightarrow> int \<Rightarrow> store \<times> response" where
  "put_course_index s idParam updatedData now =
     (if \<not> ObjectId_isValid idParam then (s, Reply 500 ''Update failed'')
      else (case courses_updateOne (ObjectId idParam) (\<lambda>c. True)
                   (mongo_set (AList.update ''updatedAt'' (JNum now) updatedData)) (courses s) of
              None \<Rightarrow> (s, Reply 500 ''Update failed'')
            | Some (cs, matchedCount, modifiedCount) \<Rightarrow>
                if modifiedCount = 0 then (s\<lparr>courses := cs\<rparr>, Reply 404 ''Course not updated'')
                else (s\<lparr>courses := cs\<rparr>, Reply 200 ''Course updated'')))"

section \<open>Sequences of enroll and unenroll requests\<close>

text \<open>
  \<open>Enroll\<close> and \<open>Unenroll\<close> are whole requests. \<open>Reserve\<close> is the reservation of an
  enroll request whose checks ran earlier, before other requests changed the store; with
  it a sequence covers the interleavings of concurrent enroll requests.
\<close>

datatype request =
    Enroll string enroll_req nat
  | Reserve string string string nat
  | Unenroll string string string

fun exec :: "store \<Rightarrow> request \<Rightarrow> store" where
  "exec s (Enroll caller req now) = fst (post_enrollments s caller req now)"
| "exec s (Reserve u cid t now) = fst (enroll_reserve s (u, cid, t) now)"
| "exec s (Unenroll caller e cid) = fst (delete_enrollments s caller e cid)"

definition run :: "store \<Rightarrow> request list \<Rightarrow> store" where
  "run s rs = foldl exec s rs"

section \<open>The admission checks as an ordered list\<close>

text \<open>
  The error kinds of the specification, and the kind of each reply of the enrollment
  handlers: the handlers answer 400 for a malformed request and for the four refusals
  \<open>Already enrolled\<close>, \<open>Enrollment limit\<close>, \<open>Course not approved\<close> and
  \<open>No seats available\<close>, which the message tells apart.
\<close>

datatype kind =
    InvalidInput | Unauthorized | Forbidden | NotFound | AlreadyEnrolled | QuotaExceeded
  | CourseNotApproved | NoSeatsAvailable | SeatConflict | ServerError | Success

fun kind_of :: "response \<Rightarrow> kind" where
  "kind_of (Reply st m) =
     (if st = 400 then
        (if m = ''Already enrolled'' then AlreadyEnrolled
         else if m = ''Enrollment limit'' then QuotaExceeded
         else if m = ''Course not approved'' then CourseNotApproved
         else if m = ''No seats available'' then NoSeatsAvailable
         else InvalidInput)
      else if st = 401 then Unauthorized
      else if st = 403 then Forbidden
      else if st = 404 then NotFound
      else if st = 409 then SeatConflict
      else if st = 200 \<or> st = 201 then Success
      else ServerError)"
| "kind_of (ReplyId st m i) = (if st = 200 \<or> st = 201 then Success else ServerError)"

text \<open>A list of checks, each with the kind it fails with; the first failing one decides.\<close>

fun first_failing :: "(bool \<times> kind) list \<Rightarrow> kind option" where
  "first_failing [] = None"
| "first_failing ((ok, k) # cs) = (if ok then first_failing cs else Some k)"

definition fields_present :: "enroll_req \<Rightarrow> bool" where
  "fields_present req =
     (\<not> falsy (body_userEmail req) \<and> \<not> falsy (body_courseId req) \<and> \<not> falsy (body_courseTitle req))"

definition courseId_wellformed :: "enroll_req \<Rightarrow> bool" where
  "courseId_wellformed req =
     (case body_courseId req of None \<Rightarrow> False | Some cid \<Rightarrow> ObjectId_isValid cid)"

definition not_enrolled_yet :: "store \<Rightarrow> enroll_req \<Rightarrow> bool" where
  "not_enrolled_yet s req =
     (\<not> list_ex (\<lambda>e. Some (userEmail e) = body_userEmail req \<and> Some (courseId e) = body_courseId req)
          (enrollments s))"

definition under_quota :: "store \<Rightarrow> enroll_req \<Rightarrow> bool" where
  "under_quota s req =
     (length (filter (\<lambda>e. Some (userEmail e) = body_userEmail req) (enrollments s)) < 3)"

definition requested_course :: "store \<Rightarrow> enroll_req \<Rightarrow> course option" where
  "requested_course s req =
     (case body_courseId req of None \<Rightarrow> None | Some cid \<Rightarrow> courses s (ObjectId cid))"

definition status_admits :: "course option \<Rightarrow> bool" where
  "status_admits co =
     (case co of None \<Rightarrow> False
      | Some c \<Rightarrow> (case status c of None \<Rightarrow> True | Some st \<Rightarrow> st = JStr ''approved''))"

definition has_seat :: "course option \<Rightarrow> bool" where
  "has_seat co = (case co of None \<Rightarrow> False | Some c \<Rightarrow> 0 < seats c)"

text \<open>
  The order as the specification gives it: presence of the three fields and the form of
  \<open>courseId\<close> make up the first check, the identity match is the second.
\<close>

definition claimed_enroll_checks :: "store \<Rightarrow> string \<Rightarrow> enroll_req \<Rightarrow> (bool \<times> kind) list" where
  "claimed_enroll_checks s caller req =
     [(fields_present req \<and> courseId_wellformed req, InvalidInput),
      (body_userEmail req = Some caller, Forbidden),
      (not_enrolled_yet s req, AlreadyEnrolled),
      (under_quota s req, QuotaExceeded),
      (requested_course s req \<noteq> None, NotFound),
      (status_admits (requested_course s req), CourseNotApproved),
      (has_seat (requested_course s req), NoSeatsAvailable)]"

text \<open>
  The order of the handler: the three fields present, the identity match, and only then
  the form of \<open>courseId\<close>.
\<close>

definition enroll_checks :: "store \<Rightarrow> string \<Rightarrow> enroll_req \<Rightarrow> (bool \<times> kind) list" where
  "enroll_checks s caller req =
     [(fields_present req, InvalidInput),
      (body_userEmail req = Some caller, Forbidden),
      (courseId_wellformed req, InvalidInput),
      (not_enrolled_yet s req, AlreadyEnrolled),
      (under_quota s req, QuotaExceeded),
      (requested_course s req \<noteq> None, NotFound),
      (status_admits (requested_course s req), CourseNotApproved),
      (has_seat (requested_course s req), NoSeatsAvailable)]"

section \<open>Example data\<close>

definition course_A :: string where
  "course_A = ''64b7f0c2a1d3e4f5a6b7c8d9''"

definition one_seat :: course where
  "one_seat = \<lparr>instructorEmail = ''teacher@hub.io'', seats = 1, enrollmentCount = 0,
                status = None, other = [(''createdAt'', JNum 1700)]\<rparr>"

definition fresh_store :: store where
  "fresh_store = \<lparr>courses = [ObjectId course_A \<mapsto> one_seat],
                   users = [\<lparr>email = ''teacher@hub.io'', role = Some ''instructor''\<rparr>,
                            \<lparr>email = ''rival@hub.io'', role = Some ''instructor''\<rparr>,
                            \<lparr>email = ''root@hub.io'', role = Some ''admin''\<rparr>],
                   enrollments = [],
                   reviews = [\<lparr>courseObjectId = ObjectId course_A, reviewer = ''ann@hub.io'', rating = 5\<rparr>]\<rparr>"

definition enroll_in_A :: "string \<Rightarrow> enroll_req" where
  "enroll_in_A u = \<lparr>body_userEmail = Some u, body_courseId = Some course_A,
                     body_courseTitle = Some ''Logic''\<rparr>"

text \<open>The store after ann has taken the only seat of the course.\<close>

definition sold_out_store :: store where
  "sold_out_store = fresh_store
     \<lparr>courses := [ObjectId course_A \<mapsto> one_seat\<lparr>seats := 0, enrollmentCount := 1\<rparr>],
      enrollments := [\<lparr>e_id = 1, userEmail = ''ann@hub.io'', courseId = course_A,
                        courseTitle = ''Logic'', enrolledAt = 10\<rparr>]\<rparr>"

text \<open>A request in ann's name, with a malformed course id.\<close>

definition mismatch_req :: enroll_req where
  "mismatch_req = \<lparr>body_userEmail = Some ''ann@hub.io'', body_courseId = Some ''not-an-id'',
                    body_courseTitle = Some ''Logic''\<rparr>"

text \<open>
  A sequence on the one-seat course: ann enrolls; bob's reservation, whose checks ran
  before ann's, comes late; cat finds no seat; ann unenrolls, twice; cat enrolls.
\<close>

definition busy_day :: "request list" where
  "busy_day =
     [Enroll ''ann@hub.io'' (enroll_in_A ''ann@hub.io'') 10,
      Reserve ''bob@hub.io'' course_A ''Logic'' 11,
      Enroll ''cat@hub.io'' (enroll_in_A ''cat@hub.io'') 12,
      Unenroll ''ann@hub.io'' ''ann@hub.io'' course_A,
      Unenroll ''ann@hub.io'' ''ann@hub.io'' course_A,
      Enroll ''cat@hub.io'' (enroll_in_A ''cat@hub.io'') 13]"

text \<open>The fields of a course that PUT /course/:id strips from its update document
  (\<open>_id\<close> is the key under which the course is stored).\<close>

definition protected_fields :: "course \<Rightarrow> string \<times> int \<times> jv option \<times> jv option" where
  "protected_fields c =
     (instructorEmail c, enrollmentCount c, status c, map_of (other c) ''createdAt'')"

text \<open>An update document that names every protected field.\<close>

definition takeover_body :: "(string \<times> jv) list" where
  "takeover_body =
     [(''_id'', JStr ''000000000000000000000000''), (''instructorEmail'', JStr ''rival@hub.io''),
      (''createdAt'', JNum 0), (''enrollmentCount'', JNum 99), (''status'', JStr ''approved''),
      (''courseTitle'', JStr ''Mine now''), (''seats'', JNum 40)]"

text \<open>A course with three seats left and two enrollments, ann's and bob's.\<close>

definition three_two_store :: store where
  "three_two_store = fresh_store
     \<lparr>courses := [ObjectId course_A \<mapsto> one_seat\<lparr>seats := 3, enrollmentCount := 2\<rparr>],
      enrollments := [\<lparr>e_id = 1, userEmail = ''ann@hub.io'', courseId = course_A,
                        courseTitle = ''Logic'', enrolledAt = 10\<rparr>,
                      \<lparr>e_id = 2, userEmail = ''bob@hub.io'', courseId = course_A,
                        courseTitle = ''Logic'', enrolledAt = 11\<rparr>]\<rparr>"

text \<open>The same course, waiting for approval.\<close>

definition pending_store :: store where
  "pending_store = fresh_store
     \<lparr>courses := [ObjectId course_A \<mapsto> one_seat\<lparr>status := Some (JStr ''pending'')\<rparr>]\<rparr>"

text \<open>The id of the example course written with upper-case digits: the same ObjectId.\<close>

definition course_A_upper :: string where
  "course_A_upper = ''64B7F0C2A1D3E4F5A6B7C8D9''"

text \<open>
  In the examples \<open>parseInt\<close> and \<open>parseFloat\<close> meet only small whole numbers,
  which both return as they are; \<open>whole_number\<close> stands for them there. No example
  has another kind of value under \<open>seats\<close> or \<open>price\<close>.
\<close>

definition whole_number :: "jv \<Rightarrow> int option" where
  "whole_number v = (case v of JNum n \<Rightarrow> Some n | _ \<Rightarrow> None)"

text \<open>An update document with one key, a path into \<open>status\<close>.\<close>

definition status_path_body :: "(string \<times> jv) list" where
  "status_path_body = [(''status.reason'', JStr ''under review'')]"


section \<open>Properties\<close>

lemma fold_max_ge: "m \<le> fold (\<lambda>e m. max (e_id e) m) es m"
  by (induction es arbitrary: m) (auto intro: order_trans [OF max.cobounded2])

lemma e_id_le_fold_max: "e \<in> set es \<Longrightarrow> e_id e \<le> fold (\<lambda>e m. max (e_id e) m) es m"
proof (induction es arbitrary: m)
  case Nil
  then show ?case by simp
next
  case (Cons a es)
  show ?case
  proof (cases "e = a")
    case True
    have "e_id a \<le> max (e_id a) m" by simp
    also have "\<dots> \<le> fold (\<lambda>e m. max (e_id e) m) es (max (e_id a) m)" by (rule fold_max_ge)
    finally show ?thesis using True by simp
  next
    case False
    with Cons.prems have "e \<in> set es" by simp
    from Cons.IH [OF this] show ?thesis by simp
  qed
qed

lemma fresh_id_fresh: "e \<in> set es \<Longrightarrow> e_id e \<noteq> fresh_id es"
  using e_id_le_fold_max [of e es 0] by (simp add: fresh_id_def)

lemma deleteOne_append_new:
  "\<forall>e\<in>set es. \<not> P e \<Longrightarrow> P x \<Longrightarrow> deleteOne P (es @ [x]) = (es, 1)"
  by (induction es) auto

lemma insert_then_delete:
  "enrollments_insertOne u cid t now es = (es', i) \<Longrightarrow> deleteOne (\<lambda>e. e_id e = i) es' = (es, 1)"
proof -
  assume ins: "enrollments_insertOne u cid t now es = (es', i)"
  let ?new = "\<lparr>e_id = fresh_id es, userEmail = u, courseId = cid, courseTitle = t, enrolledAt = now\<rparr>"
  from ins have es': "es' = es @ [?new]" and i: "i = fresh_id es"
    by (auto simp: enrollments_insertOne_def Let_def)
  have "\<forall>e\<in>set es. \<not> e_id e = fresh_id es"
    by (simp add: fresh_id_fresh)
  moreover have "e_id ?new = fresh_id es"
    by simp
  ultimately have "deleteOne (\<lambda>e. e_id e = fresh_id es) (es @ [?new]) = (es, 1)"
    by (rule deleteOne_append_new)
  then show ?thesis
    by (simp add: es' i)
qed

subsection \<open>The conditional seat claim\<close>

lemma claim_seat_eq:
  "claim_seat cid m =
     (case m (ObjectId cid) of
        None \<Rightarrow> Some (m, 0, 0)
      | Some c \<Rightarrow>
          if 0 < seats c
          then Some (m(ObjectId cid \<mapsto> c\<lparr>seats := seats c - 1, enrollmentCount := enrollmentCount c + 1\<rparr>), 1, 1)
          else Some (m, 0, 0))"
proof (cases "m (ObjectId cid)")
  case None
  then show ?thesis by (simp add: claim_seat_def courses_updateOne_def)
next
  case (Some c)
  have "c\<lparr>seats := seats c - 1, enrollmentCount := enrollmentCount c + 1\<rparr> \<noteq> c"
  proof
    assume "c\<lparr>seats := seats c - 1, enrollmentCount := enrollmentCount c + 1\<rparr> = c"
    then have "seats (c\<lparr>seats := seats c - 1, enrollmentCount := enrollmentCount c + 1\<rparr>) = seats c"
      by simp
    then show False by simp
  qed
  with Some show ?thesis
    by (simp add: claim_seat_def courses_updateOne_def inc_fields_def)
qed

text \<open>
  C1. The reservation of an enroll request runs on whatever store it finds. When the
  conditional update \<open>{_id, seats > 0} / $inc {seats: -1, enrollmentCount: 1}\<close> reports
  no modified document, the enrollment just inserted is deleted again, so the store is
  exactly the one before the insert, the reply is 409 \<open>Seat conflict\<close>, and a pair
  (userEmail, courseId) that had no enrollment record has none afterwards; this happens
  exactly when the course is missing or has no seat left. When it reports one modified
  document, the course had a seat, the reply is 201 \<open>Enrolled\<close>, and the store holds
  the new enrollment and the course with \<open>seats - 1\<close> and \<open>enrollmentCount + 1\<close>.
  The update reports nothing else. The three driver calls are taken to return: a call
  that throws, which the handler answers with 500, is not part of this statement.
\<close>

theorem enroll_reserve_outcome:
  assumes "claim_seat cid (courses s) = Some (cs, matchedCount, modifiedCount)"
  shows "(modifiedCount = 0 \<or> modifiedCount = 1)
       \<and> (modifiedCount = 0 \<longrightarrow>
            enroll_reserve s (u, cid, t) now = (s, Reply 409 ''Seat conflict'')
          \<and> (find (same_enrollment u cid) (enrollments s) = None \<longrightarrow>
               find (same_enrollment u cid) (enrollments (fst (enroll_reserve s (u, cid, t) now))) = None)
          \<and> (\<forall>c. courses s (ObjectId cid) = Some c \<longrightarrow> seats c \<le> 0))
       \<and> (modifiedCount = 1 \<longrightarrow>
            (\<exists>c. courses s (ObjectId cid) = Some c \<and> 0 < seats c
               \<and> cs = (courses s)(ObjectId cid \<mapsto>
                      c\<lparr>seats := seats c - 1, enrollmentCount := enrollmentCount c + 1\<rparr>))
          \<and> enroll_reserve s (u, cid, t) now =
              (s\<lparr>courses := cs,
                 enrollments := enrollments s @
                   [\<lparr>e_id = fresh_id (enrollments s), userEmail = u, courseId = cid,
                     courseTitle = t, enrolledAt = now\<rparr>]\<rparr>,
               ReplyId 201 ''Enrolled'' (fresh_id (enrollments s))))"
proof -
  obtain es i where ins: "enrollments_insertOne u cid t now (enrollments s) = (es, i)"
    by (cases "enrollments_insertOne u cid t now (enrollments s)")
  then have es: "es = enrollments s @
                   [\<lparr>e_id = fresh_id (enrollments s), userEmail = u, courseId = cid,
                     courseTitle = t, enrolledAt = now\<rparr>]" and i: "i = fresh_id (enrollments s)"
    by (auto simp: enrollments_insertOne_def Let_def)
  have del: "deleteOne (\<lambda>e. e_id e = i) es = (enrollments s, 1)"
    using ins by (rule insert_then_delete)
  have range: "modifiedCount = 0 \<or> modifiedCount = 1"
    using assms by (auto simp: claim_seat_eq split: option.splits if_splits)
  have unchanged: "modifiedCount = 0 \<Longrightarrow> cs = courses s"
    using assms by (auto simp: claim_seat_eq split: option.splits if_splits)
  have conflict: "enroll_reserve s (u, cid, t) now = (s, Reply 409 ''Seat conflict'')"
    if "modifiedCount = 0"
    using that unchanged assms ins del by (simp add: enroll_reserve_def)
  have success: "enroll_reserve s (u, cid, t) now =
       (s\<lparr>courses := cs, enrollments := es\<rparr>, ReplyId 201 ''Enrolled'' i)"
    if "modifiedCount = 1"
    using that assms ins by (simp add: enroll_reserve_def)
  have no_seat: "\<forall>c. courses s (ObjectId cid) = Some c \<longrightarrow> seats c \<le> 0"
    if "modifiedCount = 0"
    using that assms by (auto simp: claim_seat_eq split: option.splits if_splits)
  have claimed: "\<exists>c. courses s (ObjectId cid) = Some c \<and> 0 < seats c
               \<and> cs = (courses s)(ObjectId cid \<mapsto>
                      c\<lparr>seats := seats c - 1, enrollmentCount := enrollmentCount c + 1\<rparr>)"
    if "modifiedCount = 1"
    using that assms by (auto simp: claim_seat_eq split: option.splits if_splits)
  show ?thesis
    using range conflict success no_seat claimed by (simp add: es i)
qed

text \<open>The request that lost the race for the last seat: bob's reservation runs after
  ann's has taken the seat.\<close>

theorem enroll_reserve_outcome_witness:
  "claim_seat course_A (courses sold_out_store) = Some (courses sold_out_store, 0, 0)
   \<and> enroll_reserve sold_out_store (''bob@hub.io'', course_A, ''Logic'') 11
       = (sold_out_store, Reply 409 ''Seat conflict'')
   \<and> find (same_enrollment ''bob@hub.io'' course_A) (enrollments sold_out_store) = None
   \<and> find (same_enrollment ''bob@hub.io'' course_A)
        (enrollments (fst (enroll_reserve sold_out_store (''bob@hub.io'', course_A, ''Logic'') 11))) = None"
proof -
  have h: "claim_seat course_A (courses sold_out_store) = Some (courses sold_out_store, 0, 0)"
    by (simp add: claim_seat_def courses_updateOne_def sold_out_store_def)
  have n: "find (same_enrollment ''bob@hub.io'' course_A) (enrollments sold_out_store) = None"
    by (simp add: sold_out_store_def same_enrollment_def)
  from enroll_reserve_outcome [OF h, of "''bob@hub.io''" "''Logic''" 11] n h
  show ?thesis by simp
qed

subsection \<open>The order of the admission checks\<close>

lemma find_same_enrollment_None:
  "(find (same_enrollment u cid) es = None) =
     (\<not> list_ex (\<lambda>e. Some (userEmail e) = Some u \<and> Some (courseId e) = Some cid) es)"
  by (auto simp: find_None_iff list_ex_iff same_enrollment_def)

lemma enroll_admit_present:
  assumes "u \<noteq> []" "cid \<noteq> []" "t \<noteq> []"
  shows "enroll_admit s caller \<lparr>body_userEmail = Some u, body_courseId = Some cid, body_courseTitle = Some t\<rparr> =
     (if caller \<noteq> u then Inl (Reply 403 ''Email mismatch'')
      else if \<not> ObjectId_isValid cid then Inl (Reply 400 ''Invalid Course ID'')
      else if find (same_enrollment u cid) (enrollments s) \<noteq> None then Inl (Reply 400 ''Already enrolled'')
      else if 3 \<le> countDocuments (\<lambda>e. userEmail e = u) (enrollments s) then Inl (Reply 400 ''Enrollment limit'')
      else (case courses s (ObjectId cid) of
              None \<Rightarrow> Inl (Reply 404 ''Course not found'')
            | Some c \<Rightarrow>
                if status c \<noteq> None \<and> status c \<noteq> Some (JStr ''approved'') then Inl (Reply 400 ''Course not approved'')
                else if seats c \<le> 0 then Inl (Reply 400 ''No seats available'')
                else Inr (u, cid, t)))"
  using assms by (simp add: enroll_admit_def falsy_def split: option.splits)

lemma enroll_admit_missing:
  "\<not> fields_present req \<Longrightarrow> enroll_admit s caller req = Inl (Reply 400 ''Missing details'')"
  by (auto simp: enroll_admit_def fields_present_def)

text \<open>
  C2 (amended). The admission checks of POST /enrollments are applied in this fixed
  order, and the first failing one decides the reply, with the store unchanged: the
  three fields present (else InvalidInput), the caller's verified email equal to
  \<open>userEmail\<close> (else Forbidden), \<open>courseId\<close> well-formed (else InvalidInput), no
  enrollment yet for the pair (else AlreadyEnrolled), fewer than 3 enrollments of the
  user (else QuotaExceeded), the course exists (else NotFound), its status is absent or
  \<open>approved\<close> (else CourseNotApproved), it has a seat (else NoSeatsAvailable). Only
  when none fails does the handler go on to the insert and the conditional update.
\<close>

theorem enroll_checks_order:
  "(case first_failing (enroll_checks s caller req) of
      Some k \<Rightarrow>
        fst (post_enrollments s caller req now) = s
        \<and> kind_of (snd (post_enrollments s caller req now)) = k
    | None \<Rightarrow>
        (\<exists>u cid t. req = \<lparr>body_userEmail = Some u, body_courseId = Some cid, body_courseTitle = Some t\<rparr>
           \<and> post_enrollments s caller req now = enroll_reserve s (u, cid, t) now))"
proof (cases "fields_present req")
  case False
  then show ?thesis
    by (simp add: enroll_checks_def post_enrollments_def enroll_admit_missing)
next
  case True
  then obtain u cid t where
    req: "req = \<lparr>body_userEmail = Some u, body_courseId = Some cid, body_courseTitle = Some t\<rparr>"
    and ne: "u \<noteq> []" "cid \<noteq> []" "t \<noteq> []"
    by (cases req) (auto simp: fields_present_def falsy_def split: option.splits)
  show ?thesis
    using True ne
    by (auto simp: req enroll_checks_def post_enrollments_def enroll_admit_present
        courseId_wellformed_def not_enrolled_yet_def under_quota_def requested_course_def
        status_admits_def has_seat_def countDocuments_def find_same_enrollment_None
        split: option.splits)
qed

lemma mismatch_first_failing:
  "first_failing (enroll_checks fresh_store ''bob@hub.io'' mismatch_req) = Some Forbidden"
  by (simp add: enroll_checks_def mismatch_req_def fields_present_def falsy_def)

lemma ann_first_failing:
  "first_failing (enroll_checks fresh_store ''ann@hub.io'' (enroll_in_A ''ann@hub.io'')) = None"
  by (simp add: enroll_checks_def enroll_in_A_def fields_present_def falsy_def
      courseId_wellformed_def ObjectId_isValid_def is_hex_def course_A_def not_enrolled_yet_def
      under_quota_def requested_course_def status_admits_def has_seat_def fresh_store_def
      one_seat_def)

theorem enroll_checks_order_witness:
  "first_failing (enroll_checks fresh_store ''bob@hub.io'' mismatch_req) = Some Forbidden
   \<and> fst (post_enrollments fresh_store ''bob@hub.io'' mismatch_req 3) = fresh_store
   \<and> kind_of (snd (post_enrollments fresh_store ''bob@hub.io'' mismatch_req 3)) = Forbidden
   \<and> first_failing (enroll_checks fresh_store ''ann@hub.io'' (enroll_in_A ''ann@hub.io'')) = None
   \<and> post_enrollments fresh_store ''ann@hub.io'' (enroll_in_A ''ann@hub.io'') 3
       = enroll_reserve fresh_store (''ann@hub.io'', course_A, ''Logic'') 3"
proof -
  have rejected:
    "fst (post_enrollments fresh_store ''bob@hub.io'' mismatch_req 3) = fresh_store
     \<and> kind_of (snd (post_enrollments fresh_store ''bob@hub.io'' mismatch_req 3)) = Forbidden"
    using enroll_checks_order [where s = fresh_store and caller = "''bob@hub.io''"
        and req = mismatch_req and now = 3]
    by (simp add: mismatch_first_failing)
  have "\<exists>u cid t. enroll_in_A ''ann@hub.io'' =
            \<lparr>body_userEmail = Some u, body_courseId = Some cid, body_courseTitle = Some t\<rparr>
          \<and> post_enrollments fresh_store ''ann@hub.io'' (enroll_in_A ''ann@hub.io'') 3
              = enroll_reserve fresh_store (u, cid, t) 3"
    using enroll_checks_order [where s = fresh_store and caller = "''ann@hub.io''"
        and req = "enroll_in_A ''ann@hub.io''" and now = 3]
    by (simp add: ann_first_failing)
  then have admitted:
    "post_enrollments fresh_store ''ann@hub.io'' (enroll_in_A ''ann@hub.io'') 3
       = enroll_reserve fresh_store (''ann@hub.io'', course_A, ''Logic'') 3"
    by (auto simp: enroll_in_A_def)
  show ?thesis
    using rejected admitted mismatch_first_failing ann_first_failing by simp
qed

text \<open>
  C2 as stated puts the form of \<open>courseId\<close> into the first check, before the
  identity match. For a request in another user's name with a malformed course id the
  first failing check of that order gives InvalidInput, and the handler answers
  Forbidden.
\<close>

theorem claimed_order_counterexample:
  "first_failing (claimed_enroll_checks fresh_store ''bob@hub.io'' mismatch_req) = Some InvalidInput
   \<and> kind_of (snd (post_enrollments fresh_store ''bob@hub.io'' mismatch_req 3)) = Forbidden"
  by (simp add: claimed_enroll_checks_def mismatch_req_def fields_present_def falsy_def
      courseId_wellformed_def ObjectId_isValid_def post_enrollments_def enroll_admit_def)

subsection \<open>Conservation of seats and enrollment count\<close>

lemma updateOne_inc_total:
  assumes "courses_updateOne oid cond (inc_fields a b) m = Some (m', x, y)" and "a + b = 0"
  shows "map_option (\<lambda>c. seats c + enrollmentCount c) (m' k)
       = map_option (\<lambda>c. seats c + enrollmentCount c) (m k)"
  using assms
  by (auto simp: courses_updateOne_def inc_fields_def split: option.splits if_splits)

lemma updateOne_inc_defined:
  "courses_updateOne oid cond (inc_fields a b) m \<noteq> None"
  by (simp add: courses_updateOne_def inc_fields_def split: option.splits)

lemma enroll_reserve_total:
  "map_option (\<lambda>c. seats c + enrollmentCount c) (courses (fst (enroll_reserve s x now)) k)
     = map_option (\<lambda>c. seats c + enrollmentCount c) (courses s k)"
proof -
  obtain u cid t where x: "x = (u, cid, t)"
    by (cases x)
  obtain cs mc md where cl: "claim_seat cid (courses s) = Some (cs, mc, md)"
    using updateOne_inc_defined [of "ObjectId cid" "\<lambda>c. seats c > 0" "- 1" 1 "courses s"]
    by (auto simp: claim_seat_def)
  then have "map_option (\<lambda>c. seats c + enrollmentCount c) (cs k)
       = map_option (\<lambda>c. seats c + enrollmentCount c) (courses s k)"
    unfolding claim_seat_def by (rule updateOne_inc_total) simp
  then show ?thesis
    using cl by (simp add: x enroll_reserve_def split: prod.splits)
qed

lemma post_enrollments_total:
  "map_option (\<lambda>c. seats c + enrollmentCount c) (courses (fst (post_enrollments s caller req now)) k)
     = map_option (\<lambda>c. seats c + enrollmentCount c) (courses s k)"
  by (simp add: post_enrollments_def enroll_reserve_total split: sum.splits)

lemma delete_enrollments_total:
  "map_option (\<lambda>c. seats c + enrollmentCount c) (courses (fst (delete_enrollments s caller e cid)) k)
     = map_option (\<lambda>c. seats c + enrollmentCount c) (courses s k)"
proof -
  obtain cs mc md where
    up: "courses_updateOne (ObjectId cid) (\<lambda>c. True) (inc_fields 1 (- 1)) (courses s) = Some (cs, mc, md)"
    using updateOne_inc_defined [of "ObjectId cid" "\<lambda>c. True" 1 "- 1" "courses s"]
    by auto
  then have "map_option (\<lambda>c. seats c + enrollmentCount c) (cs k)
       = map_option (\<lambda>c. seats c + enrollmentCount c) (courses s k)"
    by (rule updateOne_inc_total) simp
  then show ?thesis
    using up by (simp add: delete_enrollments_def split: prod.splits)
qed

lemma exec_total:
  "map_option (\<lambda>c. seats c + enrollmentCount c) (courses (exec s r) k)
     = map_option (\<lambda>c. seats c + enrollmentCount c) (courses s k)"
  by (cases r) (simp_all add: enroll_reserve_total post_enrollments_total delete_enrollments_total)

lemma run_total:
  "map_option (\<lambda>c. seats c + enrollmentCount c) (courses (run s rs) k)
     = map_option (\<lambda>c. seats c + enrollmentCount c) (courses s k)"
  unfolding run_def by (induction rs arbitrary: s) (simp_all add: exec_total)

text \<open>
  C3. Take a course with \<open>enrollmentCount = 0\<close>; its \<open>seats\<close> then are the initial
  seats. After any finite sequence of enroll and unenroll requests, accepted or refused,
  and of late reservations of concurrent enroll requests, the course is still there and
  \<open>seats + enrollmentCount\<close> equals the initial seats.
\<close>

theorem seats_conservation:
  assumes "courses s oid = Some c" and "enrollmentCount c = 0"
  shows "\<exists>c'. courses (run s rs) oid = Some c' \<and> seats c' + enrollmentCount c' = seats c"
  using run_total [of s rs oid] assms by (cases "courses (run s rs) oid") auto

lemma busy_day_outcome:
  "courses (run fresh_store busy_day) (ObjectId course_A)
     = Some (one_seat\<lparr>seats := 0, enrollmentCount := 1\<rparr>)"
  by code_simp

theorem seats_conservation_witness:
  "courses fresh_store (ObjectId course_A) = Some one_seat
   \<and> enrollmentCount one_seat = 0
   \<and> courses (run fresh_store busy_day) (ObjectId course_A)
       = Some (one_seat\<lparr>seats := 0, enrollmentCount := 1\<rparr>)
   \<and> (\<exists>c'. courses (run fresh_store busy_day) (ObjectId course_A) = Some c'
            \<and> seats c' + enrollmentCount c' = seats one_seat)"
proof -
  have a: "courses fresh_store (ObjectId course_A) = Some one_seat"
    by (simp add: fresh_store_def)
  have b: "enrollmentCount one_seat = 0"
    by (simp add: one_seat_def)
  from seats_conservation [OF a b, of busy_day] a b busy_day_outcome show ?thesis
    by simp
qed

subsection \<open>What a \<open>$set\<close> leaves alone\<close>

lemma split_at_dots_not_Nil: "split_at_dots acc cs \<noteq> []"
  by (induction cs arbitrary: acc) auto

lemma split_at_dots_single: "split_at_dots acc cs = [p] \<Longrightarrow> p = rev acc @ cs"
proof (induction cs arbitrary: acc)
  case Nil
  then show ?case by simp
next
  case (Cons c cs)
  show ?case
  proof (cases "c = CHR ''.''")
    case True
    with Cons.prems have "split_at_dots [] cs = []" by simp
    then show ?thesis by (simp add: split_at_dots_not_Nil)
  next
    case False
    with Cons.prems have "split_at_dots (c # acc) cs = [p]" by simp
    from Cons.IH [OF this] show ?thesis by simp
  qed
qed

lemma field_path_single: "field_path k = [p] \<Longrightarrow> k = p"
  using split_at_dots_single [of "[]" k p] by (simp add: field_path_def)

lemma split_at_dots_no_dot: "CHR ''.'' \<notin> set cs \<Longrightarrow> split_at_dots acc cs = [rev acc @ cs]"
  by (induction cs arbitrary: acc) auto

lemma field_path_no_dot: "CHR ''.'' \<notin> set k \<Longrightarrow> field_path k = [k]"
  using split_at_dots_no_dot [of k "[]"] by (simp add: field_path_def)

text \<open>The three scalar fields are written by their own key only, dotted or not.\<close>

lemma set_field_untouched:
  assumes "set_field k v c = Some c'"
  shows "k \<noteq> ''instructorEmail'' \<Longrightarrow> instructorEmail c' = instructorEmail c"
    and "k \<noteq> ''enrollmentCount'' \<Longrightarrow> enrollmentCount c' = enrollmentCount c"
    and "k \<noteq> ''seats'' \<Longrightarrow> seats c' = seats c"
proof -
  from assms obtain f rest where p: "field_path k = f # rest"
    by (cases "field_path k") (simp_all add: set_field_def)
  have single: "rest = [] \<Longrightarrow> k = f"
    using p by (simp add: field_path_single)
  show "k \<noteq> ''instructorEmail'' \<Longrightarrow> instructorEmail c' = instructorEmail c"
    using assms single unfolding set_field_def p
    by (auto split: if_splits list.splits jv.splits option.splits)
  show "k \<noteq> ''enrollmentCount'' \<Longrightarrow> enrollmentCount c' = enrollmentCount c"
    using assms single unfolding set_field_def p
    by (auto split: if_splits list.splits jv.splits option.splits)
  show "k \<noteq> ''seats'' \<Longrightarrow> seats c' = seats c"
    using assms single unfolding set_field_def p
    by (auto split: if_splits list.splits jv.splits option.splits)
qed

text \<open>A key without a dot writes the field of its name and no other.\<close>

lemma set_field_plain:
  assumes "set_field k v c = Some c'" and "CHR ''.'' \<notin> set k"
  shows "k \<noteq> ''status'' \<Longrightarrow> status c' = status c"
    and "k \<noteq> f \<Longrightarrow> map_of (other c') f = map_of (other c) f"
proof -
  have p: "field_path k = [k]"
    using assms(2) by (rule field_path_no_dot)
  show "k \<noteq> ''status'' \<Longrightarrow> status c' = status c"
    using assms(1) unfolding set_field_def p
    by (auto split: if_splits list.splits jv.splits option.splits)
  show "k \<noteq> f \<Longrightarrow> map_of (other c') f = map_of (other c) f"
    using assms(1) unfolding set_field_def p
    by (auto simp: update_conv' split: if_splits list.splits jv.splits option.splits)
qed

lemma apply_sets_frame:
  assumes "apply_sets kvs c = Some c'"
    and "\<And>k v a b. (k, v) \<in> set kvs \<Longrightarrow> set_field k v a = Some b \<Longrightarrow> g b = g a"
  shows "g c' = g c"
  using assms
proof (induction kvs arbitrary: c)
  case Nil
  then show ?case by simp
next
  case (Cons kv kvs)
  obtain k v where kv: "kv = (k, v)" by (cases kv)
  from Cons.prems(1) obtain c1 where c1: "set_field k v c = Some c1" and rest: "apply_sets kvs c1 = Some c'"
    by (auto simp: kv split: option.splits)
  have "g c' = g c1"
    using rest Cons.prems(2) by (intro Cons.IH) auto
  moreover have "g c1 = g c"
    using c1 Cons.prems(2) [of k v c c1] kv by simp
  ultimately show ?case by simp
qed

lemma mongo_set_applied:
  assumes "mongo_set kvs c = Some c'"
  shows "apply_sets kvs c = Some c'" and "conflict_free (map (\<lambda>kv. field_path (fst kv)) kvs)"
  using assms by (simp_all add: mongo_set_def paths_accepted_def split: if_splits)

lemma mongo_set_instructorEmail:
  assumes "mongo_set kvs c = Some c'" and "''instructorEmail'' \<notin> fst ` set kvs"
  shows "instructorEmail c' = instructorEmail c"
  using mongo_set_applied(1) [OF assms(1)]
proof (rule apply_sets_frame)
  fix k v a b assume "(k, v) \<in> set kvs" and sf: "set_field k v a = Some b"
  with assms(2) have "k \<noteq> ''instructorEmail''" by force
  with sf show "instructorEmail b = instructorEmail a" by (rule set_field_untouched(1))
qed

lemma mongo_set_enrollmentCount:
  assumes "mongo_set kvs c = Some c'" and "''enrollmentCount'' \<notin> fst ` set kvs"
  shows "enrollmentCount c' = enrollmentCount c"
  using mongo_set_applied(1) [OF assms(1)]
proof (rule apply_sets_frame)
  fix k v a b assume "(k, v) \<in> set kvs" and sf: "set_field k v a = Some b"
  with assms(2) have "k \<noteq> ''enrollmentCount''" by force
  with sf show "enrollmentCount b = enrollmentCount a" by (rule set_field_untouched(2))
qed

lemma apply_sets_seats_untouched:
  assumes "apply_sets kvs c = Some c'" and "''seats'' \<notin> fst ` set kvs"
  shows "seats c' = seats c"
  using assms(1)
proof (rule apply_sets_frame)
  fix k v a b assume "(k, v) \<in> set kvs" and sf: "set_field k v a = Some b"
  with assms(2) have "k \<noteq> ''seats''" by force
  with sf show "seats b = seats a" by (rule set_field_untouched(3))
qed

lemma mongo_set_status:
  assumes "mongo_set kvs c = Some c'" and "''status'' \<notin> fst ` set kvs"
    and "\<forall>k\<in>fst ` set kvs. CHR ''.'' \<notin> set k"
  shows "status c' = status c"
  using mongo_set_applied(1) [OF assms(1)]
proof (rule apply_sets_frame)
  fix k v a b assume in_kvs: "(k, v) \<in> set kvs" and sf: "set_field k v a = Some b"
  with assms(2) have "k \<noteq> ''status''" by force
  moreover from in_kvs assms(3) have "CHR ''.'' \<notin> set k" by force
  ultimately show "status b = status a"
    using sf by (simp add: set_field_plain(1))
qed

lemma mongo_set_other:
  assumes "mongo_set kvs c = Some c'" and "f \<notin> fst ` set kvs"
    and "\<forall>k\<in>fst ` set kvs. CHR ''.'' \<notin> set k"
  shows "map_of (other c') f = map_of (other c) f"
  using mongo_set_applied(1) [OF assms(1)]
proof (rule apply_sets_frame)
  fix k v a b assume in_kvs: "(k, v) \<in> set kvs" and sf: "set_field k v a = Some b"
  with assms(2) have "k \<noteq> f" by force
  moreover from in_kvs assms(3) have "CHR ''.'' \<notin> set k" by force
  ultimately show "map_of (other b) f = map_of (other a) f"
    using sf by (simp add: set_field_plain(2))
qed

text \<open>An accepted update has no key twice, and its \<open>seats\<close> key decides the new seats.\<close>

lemma conflict_free_distinct: "conflict_free ps \<Longrightarrow> distinct ps"
  by (induction ps) (auto simp: list_all_iff overlaps_def)

lemma mongo_set_distinct_keys:
  assumes "mongo_set kvs c = Some c'"
  shows "distinct (map fst kvs)"
proof -
  have "distinct (map field_path (map fst kvs))"
    using conflict_free_distinct [OF mongo_set_applied(2) [OF assms]] by (simp add: comp_def)
  then show ?thesis
    by (simp only: distinct_map)
qed

lemma apply_sets_seats_written:
  "apply_sets kvs c = Some c' \<Longrightarrow> distinct (map fst kvs) \<Longrightarrow> map_of kvs ''seats'' = Some v
     \<Longrightarrow> v = JNum (seats c')"
proof (induction kvs arbitrary: c)
  case Nil
  then show ?case by simp
next
  case (Cons kv kvs)
  obtain k w where kv: "kv = (k, w)" by (cases kv)
  from Cons.prems(1) obtain c1 where c1: "set_field k w c = Some c1" and rest: "apply_sets kvs c1 = Some c'"
    by (auto simp: kv split: option.splits)
  show ?case
  proof (cases "k = ''seats''")
    case True
    with Cons.prems(3) kv have w: "w = v" by simp
    from True Cons.prems(2) kv have "''seats'' \<notin> fst ` set kvs" by auto
    with rest have "seats c' = seats c1" by (rule apply_sets_seats_untouched)
    moreover from c1 True have "w = JNum (seats c1)"
      by (auto simp: set_field_def field_path_def split: jv.splits)
    ultimately show ?thesis using w by simp
  next
    case False
    with Cons.prems kv have "distinct (map fst kvs)" "map_of kvs ''seats'' = Some v" by auto
    with rest show ?thesis by (intro Cons.IH)
  qed
qed

lemma mongo_set_seats_untouched:
  assumes "mongo_set kvs c = Some c'" and "''seats'' \<notin> fst ` set kvs"
  shows "seats c' = seats c"
  using mongo_set_applied(1) [OF assms(1)] assms(2) by (rule apply_sets_seats_untouched)

lemma mongo_set_seats_written:
  assumes "mongo_set kvs c = Some c'" and "map_of kvs ''seats'' = Some v"
  shows "v = JNum (seats c')"
  using mongo_set_applied(1) [OF assms(1)] mongo_set_distinct_keys [OF assms(1)] assms(2)
  by (rule apply_sets_seats_written)

subsection \<open>Course update: what the handler writes\<close>

lemma updateOne_frame:
  assumes "courses_updateOne oid cond upd m = Some (m', x, y)"
    and "\<And>c c'. upd c = Some c' \<Longrightarrow> g c' = g c"
  shows "map_option g (m' k) = map_option g (m k)"
proof (cases "m oid")
  case None
  with assms(1) show ?thesis by (simp add: courses_updateOne_def)
next
  case (Some c)
  show ?thesis
  proof (cases "cond c")
    case False
    with Some assms(1) show ?thesis by (simp add: courses_updateOne_def)
  next
    case True
    with Some assms(1) obtain c' where c': "upd c = Some c'" and m': "m' = m(oid \<mapsto> c')"
      by (auto simp: courses_updateOne_def split: option.splits)
    from assms(2) [OF c'] Some show ?thesis by (simp add: m')
  qed
qed

lemma keys_delete: "fst ` set (AList.delete x al) = fst ` set al - {x}"
proof -
  have "set (map fst (AList.delete x al)) = set (removeAll x (map fst al))"
    by (simp only: delete_keys)
  then show ?thesis
    by (simp only: set_removeAll set_map)
qed

lemma strip_protected_keys:
  assumes "k \<in> fst ` set (strip_protected body)"
  shows "k \<in> fst ` set body" and "k \<noteq> ''_id''" and "k \<noteq> ''instructorEmail''"
    and "k \<noteq> ''createdAt''" and "k \<noteq> ''enrollmentCount''" and "k \<noteq> ''status''"
  using assms unfolding strip_protected_def keys_delete
  by (simp_all only: Diff_iff singleton_iff not_False_eq_True simp_thms)

lemma normalise_seats_keys:
  "normalise_seats parseInt d = Some d' \<Longrightarrow> fst ` set d' \<subseteq> insert ''seats'' (fst ` set d)"
proof -
  assume "normalise_seats parseInt d = Some d'"
  then have "d' = d \<or> (\<exists>v. d' = AList.update ''seats'' v d)"
    by (auto simp: normalise_seats_def split: option.splits if_splits)
  then show ?thesis
    by (elim disjE exE) (simp_all add: dom_update subset_insertI)
qed

lemma normalise_price_keys:
  "normalise_price parseFloat d = Some d' \<Longrightarrow> fst ` set d' \<subseteq> insert ''price'' (fst ` set d)"
proof -
  assume "normalise_price parseFloat d = Some d'"
  then have "d' = d \<or> (\<exists>v. d' = AList.update ''price'' v d)"
    by (auto simp: normalise_price_def split: option.splits if_splits)
  then show ?thesis
    by (elim disjE exE) (simp_all add: dom_update subset_insertI)
qed

lemma put_update_keys:
  assumes "normalise_seats parseInt (strip_protected body) = Some d"
    and "normalise_price parseFloat d = Some d'"
    and "k \<in> fst ` set (AList.update ''updatedAt'' (JNum now) d')"
  shows "k = ''updatedAt'' \<or> k = ''price'' \<or> k = ''seats'' \<or> k \<in> fst ` set (strip_protected body)"
  using normalise_seats_keys [OF assms(1)] normalise_price_keys [OF assms(2)] assms(3)
  unfolding dom_update by blast

lemma put_update_avoids:
  assumes "normalise_seats parseInt (strip_protected body) = Some d"
    and "normalise_price parseFloat d = Some d'"
    and "k = ''instructorEmail'' \<or> k = ''createdAt'' \<or> k = ''enrollmentCount'' \<or> k = ''status''"
  shows "k \<notin> fst ` set (AList.update ''updatedAt'' (JNum now) d')"
proof
  assume inU: "k \<in> fst ` set (AList.update ''updatedAt'' (JNum now) d')"
  from assms(3) have "k \<noteq> ''updatedAt''" "k \<noteq> ''price''" "k \<noteq> ''seats''"
    by auto
  with put_update_keys [OF assms(1,2) inU] have "k \<in> fst ` set (strip_protected body)"
    by simp
  from strip_protected_keys(3-6) [OF this] assms(3) show False
    by simp
qed

lemma put_update_plain:
  assumes "normalise_seats parseInt (strip_protected body) = Some d"
    and "normalise_price parseFloat d = Some d'"
    and "\<forall>k\<in>fst ` set body. CHR ''.'' \<notin> set k"
  shows "\<forall>k\<in>fst ` set (AList.update ''updatedAt'' (JNum now) d'). CHR ''.'' \<notin> set k"
proof
  fix k assume "k \<in> fst ` set (AList.update ''updatedAt'' (JNum now) d')"
  from put_update_keys [OF assms(1,2) this]
  show "CHR ''.'' \<notin> set k"
  proof (elim disjE)
    assume "k \<in> fst ` set (strip_protected body)"
    then have "k \<in> fst ` set body" by (rule strip_protected_keys(1))
    with assms(3) show ?thesis by blast
  qed simp_all
qed

text \<open>The handler either leaves the store as it is and does not answer 200, or answers
  200 after one accepted \<open>$set\<close> on the course of the request.\<close>

lemma put_course_cases:
  "(fst (put_course parseInt parseFloat s e r i body now) = s
      \<and> kind_of (snd (put_course parseInt parseFloat s e r i body now)) \<noteq> Success)
   \<or> (\<exists>c c' d d'. courses s (ObjectId i) = Some c
        \<and> normalise_seats parseInt (strip_protected body) = Some d
        \<and> normalise_price parseFloat d = Some d'
        \<and> mongo_set (AList.update ''updatedAt'' (JNum now) d') c = Some c'
        \<and> fst (put_course parseInt parseFloat s e r i body now)
            = s\<lparr>courses := (courses s)(ObjectId i \<mapsto> c')\<rparr>
        \<and> kind_of (snd (put_course parseInt parseFloat s e r i body now)) = Success)"
  by (simp add: put_course_def courses_updateOne_def split: option.splits)

lemma put_update_owner_and_count:
  assumes "normalise_seats parseInt (strip_protected body) = Some d"
    and "normalise_price parseFloat d = Some d'"
    and "mongo_set (AList.update ''updatedAt'' (JNum now) d') c = Some c'"
  shows "instructorEmail c' = instructorEmail c" and "enrollmentCount c' = enrollmentCount c"
proof -
  note avoids = put_update_avoids [OF assms(1,2), of _ now]
  show "instructorEmail c' = instructorEmail c"
    using assms(3) by (rule mongo_set_instructorEmail) (rule avoids, simp)
  show "enrollmentCount c' = enrollmentCount c"
    using assms(3) by (rule mongo_set_enrollmentCount) (rule avoids, simp)
qed

text \<open>
  Whatever the body contains, a course update leaves every course under its \<open>_id\<close>
  with its \<open>instructorEmail\<close> and its \<open>enrollmentCount\<close>.
\<close>

lemma put_course_keeps_owner_and_count:
  "map_option (\<lambda>c. (instructorEmail c, enrollmentCount c))
     (courses (fst (put_course parseInt parseFloat s e r i body now)) oid)
   = map_option (\<lambda>c. (instructorEmail c, enrollmentCount c)) (courses s oid)"
  using put_course_cases [of parseInt parseFloat s e r i body now]
proof (elim disjE exE conjE)
  assume "fst (put_course parseInt parseFloat s e r i body now) = s"
  then show ?thesis by simp
next
  fix c c' d d'
  assume c: "courses s (ObjectId i) = Some c"
    and ns: "normalise_seats parseInt (strip_protected body) = Some d"
    and np: "normalise_price parseFloat d = Some d'"
    and ms: "mongo_set (AList.update ''updatedAt'' (JNum now) d') c = Some c'"
    and res: "fst (put_course parseInt parseFloat s e r i body now)
                = s\<lparr>courses := (courses s)(ObjectId i \<mapsto> c')\<rparr>"
  from put_update_owner_and_count [OF ns np ms] c show ?thesis
    by (simp add: res)
qed

text \<open>
  When no key of the body has a dot, \<open>status\<close> and \<open>createdAt\<close> are left as they
  are too: the handler has deleted the keys of these names from the update.
\<close>

lemma put_course_plain_body_keeps_protected:
  assumes "\<forall>k\<in>fst ` set body. CHR ''.'' \<notin> set k"
  shows "map_option protected_fields
           (courses (fst (put_course parseInt parseFloat s e r i body now)) oid)
         = map_option protected_fields (courses s oid)"
  using put_course_cases [of parseInt parseFloat s e r i body now]
proof (elim disjE exE conjE)
  assume "fst (put_course parseInt parseFloat s e r i body now) = s"
  then show ?thesis by simp
next
  fix c c' d d'
  assume c: "courses s (ObjectId i) = Some c"
    and ns: "normalise_seats parseInt (strip_protected body) = Some d"
    and np: "normalise_price parseFloat d = Some d'"
    and ms: "mongo_set (AList.update ''updatedAt'' (JNum now) d') c = Some c'"
    and res: "fst (put_course parseInt parseFloat s e r i body now)
                = s\<lparr>courses := (courses s)(ObjectId i \<mapsto> c')\<rparr>"
  note avoids = put_update_avoids [OF ns np, of _ now]
  note plain = put_update_plain [OF ns np assms, of now]
  have "status c' = status c"
    using ms _ plain by (rule mongo_set_status) (rule avoids, simp)
  moreover have "map_of (other c') ''createdAt'' = map_of (other c) ''createdAt''"
    using ms _ plain by (rule mongo_set_other) (rule avoids, simp)
  ultimately have "protected_fields c' = protected_fields c"
    using put_update_owner_and_count [OF ns np ms] by (simp add: protected_fields_def)
  with c show ?thesis
    by (simp add: res)
qed

text \<open>A successful update whose body names every protected field: only \<open>seats\<close>,
  \<open>courseTitle\<close> and \<open>updatedAt\<close> are written.\<close>

lemma takeover_attempt:
  "snd (put_course whole_number whole_number fresh_store ''teacher@hub.io'' ''instructor''
          course_A takeover_body 99)
     = Reply 200 ''Course updated successfully''
   \<and> courses (fst (put_course whole_number whole_number fresh_store ''teacher@hub.io''
                     ''instructor'' course_A takeover_body 99))
        (ObjectId course_A)
     = Some (one_seat\<lparr>seats := 40,
               other := [(''createdAt'', JNum 1700), (''courseTitle'', JStr ''Mine now''),
                         (''updatedAt'', JNum 99)]\<rparr>)"
  by code_simp

text \<open>
  C10. The handler deletes the keys \<open>_id\<close>, \<open>instructorEmail\<close>, \<open>createdAt\<close>,
  \<open>enrollmentCount\<close> and \<open>status\<close> from the update document, and spreads what is
  left into \<open>$set\<close>. A key that is a path into one of these fields is not one of the
  deleted keys. The course of the example has no \<open>status\<close> field. Its instructor sends
  the body \<open>{"status.reason": "under review"}\<close>: the reply is 200, the course now has
  a \<open>status\<close>, the embedded document \<open>{reason: "under review"}\<close>, and an enroll
  request that would have been admitted before is refused with \<open>Course not approved\<close>.
  So \<open>status\<close> is not unchanged regardless of what the body contains.
\<close>

theorem put_course_status_path:
  "map_option status (courses fresh_store (ObjectId course_A)) = Some None
   \<and> snd (put_course_route whole_number whole_number fresh_store False (Some ''teacher@hub.io'')
            course_A status_path_body 99)
       = Reply 200 ''Course updated successfully''
   \<and> map_option status
        (courses (fst (put_course_route whole_number whole_number fresh_store False
                         (Some ''teacher@hub.io'') course_A status_path_body 99))
           (ObjectId course_A))
       = Some (Some (JObj [(''reason'', JStr ''under review'')]))
   \<and> snd (post_enrollments fresh_store ''ann@hub.io'' (enroll_in_A ''ann@hub.io'') 100)
       = ReplyId 201 ''Enrolled'' 1
   \<and> snd (post_enrollments
            (fst (put_course_route whole_number whole_number fresh_store False
                    (Some ''teacher@hub.io'') course_A status_path_body 99))
            ''ann@hub.io'' (enroll_in_A ''ann@hub.io'') 100)
       = Reply 400 ''Course not approved''"
  by code_simp

subsection \<open>The writers of seats and enrollmentCount\<close>

lemma strip_protected_seats: "map_of (strip_protected body) ''seats'' = map_of body ''seats''"
  by (simp add: strip_protected_def)

lemma normalise_seats_result:
  assumes "normalise_seats parseInt d0 = Some d"
  shows "(map_of d0 ''seats'' = None \<and> d = d0)
       \<or> (\<exists>v n. map_of d0 ''seats'' = Some v \<and> parseInt v = Some n \<and> 0 \<le> n
                \<and> d = AList.update ''seats'' (JNum n) d0)"
  using assms by (auto simp: normalise_seats_def split: option.splits if_splits)

lemma normalise_price_result:
  assumes "normalise_price parseFloat d = Some d'"
  shows "d' = d \<or> (\<exists>v. d' = AList.update ''price'' v d)"
  using assms by (auto simp: normalise_price_def split: option.splits if_splits)

text \<open>What an accepted update of the handler does to \<open>seats\<close>.\<close>

lemma put_update_seats:
  assumes ns: "normalise_seats parseInt (strip_protected body) = Some d"
    and np: "normalise_price parseFloat d = Some d'"
    and ms: "mongo_set (AList.update ''updatedAt'' (JNum now) d') c = Some c'"
  shows "(case map_of body ''seats'' of
            None \<Rightarrow> seats c' = seats c
          | Some v \<Rightarrow> \<exists>n. parseInt v = Some n \<and> 0 \<le> n \<and> seats c' = n)"
proof -
  let ?U = "AList.update ''updatedAt'' (JNum now) d'"
  have price: "map_of d' ''seats'' = map_of d ''seats''"
    using normalise_price_result [OF np] by (auto simp: update_conv')
  have U: "map_of ?U ''seats'' = map_of d ''seats''"
    using price by (simp add: update_conv')
  from normalise_seats_result [OF ns] show ?thesis
  proof (elim disjE exE conjE)
    assume none: "map_of (strip_protected body) ''seats'' = None" and "d = strip_protected body"
    then have "map_of ?U ''seats'' = None"
      using U by simp
    then have "''seats'' \<notin> fst ` set ?U"
      by (simp add: map_of_eq_None_iff)
    with ms have "seats c' = seats c"
      by (rule mongo_set_seats_untouched)
    with none show ?thesis
      by (simp add: strip_protected_seats)
  next
    fix v n
    assume v: "map_of (strip_protected body) ''seats'' = Some v"
      and n: "parseInt v = Some n" "0 \<le> n"
      and d: "d = AList.update ''seats'' (JNum n) (strip_protected body)"
    have "map_of ?U ''seats'' = Some (JNum n)"
      using U by (simp add: d update_conv')
    with ms have "JNum n = JNum (seats c')"
      by (rule mongo_set_seats_written)
    then have "seats c' = n" by simp
    with v n show ?thesis
      by (simp add: strip_protected_seats)
  qed
qed

lemma put_course_enrollmentCount:
  "map_option enrollmentCount (courses (fst (put_course parseInt parseFloat s e r i body now)) oid)
     = map_option enrollmentCount (courses s oid)"
proof -
  have "map_option (snd \<circ> (\<lambda>c. (instructorEmail c, enrollmentCount c)))
          (courses (fst (put_course parseInt parseFloat s e r i body now)) oid)
        = map_option (snd \<circ> (\<lambda>c. (instructorEmail c, enrollmentCount c))) (courses s oid)"
    unfolding option.map_comp [symmetric]
    by (simp only: put_course_keeps_owner_and_count)
  then show ?thesis
    by (simp add: comp_def)
qed

lemma put_course_seats:
  "(kind_of (snd (put_course parseInt parseFloat s e r i body now)) = Success \<longrightarrow>
      (case map_of body ''seats'' of
         None \<Rightarrow>
           map_option seats (courses (fst (put_course parseInt parseFloat s e r i body now)) (ObjectId i))
             = map_option seats (courses s (ObjectId i))
       | Some v \<Rightarrow>
           \<exists>n. parseInt v = Some n \<and> 0 \<le> n
             \<and> map_option seats
                  (courses (fst (put_course parseInt parseFloat s e r i body now)) (ObjectId i))
                 = Some n))
   \<and> (kind_of (snd (put_course parseInt parseFloat s e r i body now)) \<noteq> Success \<longrightarrow>
        fst (put_course parseInt parseFloat s e r i body now) = s)
   \<and> (oid \<noteq> ObjectId i \<longrightarrow>
        courses (fst (put_course parseInt parseFloat s e r i body now)) oid = courses s oid)"
  using put_course_cases [of parseInt parseFloat s e r i body now]
proof (elim disjE exE conjE)
  assume "fst (put_course parseInt parseFloat s e r i body now) = s"
    and "kind_of (snd (put_course parseInt parseFloat s e r i body now)) \<noteq> Success"
  then show ?thesis by simp
next
  fix c c' d d'
  assume c: "courses s (ObjectId i) = Some c"
    and ns: "normalise_seats parseInt (strip_protected body) = Some d"
    and np: "normalise_price parseFloat d = Some d'"
    and ms: "mongo_set (AList.update ''updatedAt'' (JNum now) d') c = Some c'"
    and res: "fst (put_course parseInt parseFloat s e r i body now)
                = s\<lparr>courses := (courses s)(ObjectId i \<mapsto> c')\<rparr>"
    and ok: "kind_of (snd (put_course parseInt parseFloat s e r i body now)) = Success"
  from put_update_seats [OF ns np ms] c ok show ?thesis
    by (cases "map_of body ''seats''") (simp_all add: res)
qed

lemma status_update_keeps:
  "mongo_set [(''status'', JStr x)] c = Some c' \<Longrightarrow>
     seats c' = seats c \<and> enrollmentCount c' = enrollmentCount c"
  by (auto simp: mongo_set_def set_field_def field_path_def split: if_splits)

lemma patch_status_effect:
  "courses (fst (patch_admin_courses_status s i st)) = courses s
   \<or> (\<exists>x cs mc md.
         courses_updateOne (ObjectId i) (\<lambda>c. True) (mongo_set [(''status'', JStr x)]) (courses s)
           = Some (cs, mc, md)
         \<and> courses (fst (patch_admin_courses_status s i st)) = cs)"
proof (cases st)
  case None
  then show ?thesis by (simp add: patch_admin_courses_status_def)
next
  case (Some x)
  show ?thesis
  proof (cases "x \<in> set [''approved'', ''rejected'', ''pending''] \<and> ObjectId_isValid i")
    case False
    then show ?thesis
      unfolding patch_admin_courses_status_def Some by auto
  next
    case True
    show ?thesis
    proof (cases "courses_updateOne (ObjectId i) (\<lambda>c. True) (mongo_set [(''status'', JStr x)]) (courses s)")
      case None
      have "patch_admin_courses_status s i st = (s, Reply 500 ''Update failed'')"
        unfolding patch_admin_courses_status_def Some option.case
        using True None by (simp only: simp_thms if_False option.case)
      then show ?thesis by simp
    next
      case res: (Some r)
      obtain cs mc md where r: "r = (cs, mc, md)" by (cases r)
      have "patch_admin_courses_status s i st =
              (if mc = 0 then (s\<lparr>courses := cs\<rparr>, Reply 404 ''Course not found'')
               else (s\<lparr>courses := cs\<rparr>, Reply 200 (''Status updated to '' @ x)))"
        unfolding patch_admin_courses_status_def Some option.case
        using True res r by (simp only: simp_thms if_False option.case prod.case)
      then have "courses (fst (patch_admin_courses_status s i st)) = cs"
        by simp
      with res r show ?thesis by blast
    qed
  qed
qed

lemma patch_status_capacity:
  "map_option (\<lambda>c. (seats c, enrollmentCount c)) (courses (fst (patch_admin_courses_status s i st)) oid)
     = map_option (\<lambda>c. (seats c, enrollmentCount c)) (courses s oid)"
  using patch_status_effect [of s i st]
proof (elim disjE exE conjE)
  assume "courses (fst (patch_admin_courses_status s i st)) = courses s"
  then show ?thesis by simp
next
  fix x cs mc md
  assume up: "courses_updateOne (ObjectId i) (\<lambda>c. True) (mongo_set [(''status'', JStr x)]) (courses s)
                = Some (cs, mc, md)"
    and res: "courses (fst (patch_admin_courses_status s i st)) = cs"
  have "map_option (\<lambda>c. (seats c, enrollmentCount c)) (cs oid)
          = map_option (\<lambda>c. (seats c, enrollmentCount c)) (courses s oid)"
    using up by (rule updateOne_frame) (simp add: status_update_keeps)
  then show ?thesis by (simp add: res)
qed

lemma delete_courses_rest:
  "courses (fst (delete_courses s e r i)) oid = None
   \<or> courses (fst (delete_courses s e r i)) oid = courses s oid"
  by (simp add: delete_courses_def courses_deleteOne_def split: option.splits)

text \<open>
  The two routes of index.js that write a course outside the admission paths have no
  such guard: its seat endpoint adds any number to \<open>seats\<close>, and its course update
  writes whatever the body names, \<open>enrollmentCount\<close> included. The statement below
  is about the server of README.md and says nothing of them.
\<close>

lemma index_put_writes_enrollmentCount:
  "map_option enrollmentCount (courses sold_out_store (ObjectId course_A)) = Some 1
   \<and> snd (put_course_index sold_out_store course_A [(''enrollmentCount'', JNum 0)] 99)
       = Reply 200 ''Course updated''
   \<and> map_option enrollmentCount
        (courses (fst (put_course_index sold_out_store course_A [(''enrollmentCount'', JNum 0)] 99))
           (ObjectId course_A)) = Some 0"
  by code_simp

text \<open>
  C5 (amended). Among the operations of the server of README.md, \<open>enrollmentCount\<close>
  of a stored course is changed by none other than the seat claim of enroll and the
  release of unenroll: a course update and a status change leave it as it is on every
  course, and a course deletion removes whole documents. \<open>seats\<close> has one more writer,
  the course update. An update that is answered 200 and whose body has a \<open>seats\<close> key
  sets the \<open>seats\<close> of its course to the number \<open>parseInt\<close> returns for the value
  of that key, which is not negative; an update that is answered 200 and whose body has
  no \<open>seats\<close> key leaves \<open>seats\<close> as it is; an update that is not answered 200
  leaves the whole store as it is; and no update touches another course. A status change
  leaves \<open>seats\<close> alone.
\<close>

theorem other_writers_of_capacity:
  "map_option enrollmentCount (courses (fst (put_course parseInt parseFloat s e r i body now)) oid)
     = map_option enrollmentCount (courses s oid)
   \<and> (kind_of (snd (put_course parseInt parseFloat s e r i body now)) = Success \<longrightarrow>
        (case map_of body ''seats'' of
           None \<Rightarrow>
             map_option seats
                (courses (fst (put_course parseInt parseFloat s e r i body now)) (ObjectId i))
               = map_option seats (courses s (ObjectId i))
         | Some v \<Rightarrow>
             \<exists>n. parseInt v = Some n \<and> 0 \<le> n
               \<and> map_option seats
                    (courses (fst (put_course parseInt parseFloat s e r i body now)) (ObjectId i))
                   = Some n))
   \<and> (kind_of (snd (put_course parseInt parseFloat s e r i body now)) \<noteq> Success \<longrightarrow>
        fst (put_course parseInt parseFloat s e r i body now) = s)
   \<and> (oid \<noteq> ObjectId i \<longrightarrow>
        courses (fst (put_course parseInt parseFloat s e r i body now)) oid = courses s oid)
   \<and> map_option (\<lambda>c. (seats c, enrollmentCount c))
        (courses (fst (patch_admin_courses_status s i st)) oid)
       = map_option (\<lambda>c. (seats c, enrollmentCount c)) (courses s oid)
   \<and> (courses (fst (delete_courses s e r i)) oid = None
        \<or> courses (fst (delete_courses s e r i)) oid = courses s oid)"
  using put_course_enrollmentCount [of parseInt parseFloat s e r i body now oid]
    put_course_seats [of parseInt parseFloat s e r i body now oid]
    patch_status_capacity [of s i st oid]
    delete_courses_rest [of s e r i oid]
  by (simp only: simp_thms)

text \<open>
  The instructor of the one-seat course sends \<open>{seats: 40}\<close>: the reply is 200 and the
  course has 40 seats. With \<open>{courseTitle: "Logic II"}\<close> the reply is 200 and the seats
  stay 1. With \<open>{seats: -5}\<close> the reply is 400 and the store is as before.
\<close>

theorem other_writers_of_capacity_witness:
  "kind_of (snd (put_course whole_number whole_number fresh_store ''teacher@hub.io''
                   ''instructor'' course_A [(''seats'', JNum 40)] 99)) = Success
   \<and> map_of [(''seats'', JNum 40)] ''seats'' = Some (JNum 40)
   \<and> whole_number (JNum 40) = Some 40
   \<and> map_option seats (courses fresh_store (ObjectId course_A)) = Some 1
   \<and> map_option seats
        (courses (fst (put_course whole_number whole_number fresh_store ''teacher@hub.io''
                         ''instructor'' course_A [(''seats'', JNum 40)] 99)) (ObjectId course_A))
       = Some 40
   \<and> map_option enrollmentCount
        (courses (fst (put_course whole_number whole_number fresh_store ''teacher@hub.io''
                         ''instructor'' course_A [(''seats'', JNum 40)] 99)) (ObjectId course_A))
       = Some 0
   \<and> kind_of (snd (put_course whole_number whole_number fresh_store ''teacher@hub.io''
                     ''instructor'' course_A [(''courseTitle'', JStr ''Logic II'')] 99)) = Success
   \<and> map_option seats
        (courses (fst (put_course whole_number whole_number fresh_store ''teacher@hub.io''
                         ''instructor'' course_A [(''courseTitle'', JStr ''Logic II'')] 99))
           (ObjectId course_A))
       = Some 1
   \<and> kind_of (snd (put_course whole_number whole_number fresh_store ''teacher@hub.io''
                     ''instructor'' course_A [(''seats'', JNum (- 5))] 99)) \<noteq> Success
   \<and> fst (put_course whole_number whole_number fresh_store ''teacher@hub.io''
            ''instructor'' course_A [(''seats'', JNum (- 5))] 99) = fresh_store"
proof -
  have ok40: "kind_of (snd (put_course whole_number whole_number fresh_store ''teacher@hub.io''
                   ''instructor'' course_A [(''seats'', JNum 40)] 99)) = Success"
    by code_simp
  have okT: "kind_of (snd (put_course whole_number whole_number fresh_store ''teacher@hub.io''
                     ''instructor'' course_A [(''courseTitle'', JStr ''Logic II'')] 99)) = Success"
    by code_simp
  have bad: "kind_of (snd (put_course whole_number whole_number fresh_store ''teacher@hub.io''
                     ''instructor'' course_A [(''seats'', JNum (- 5))] 99)) \<noteq> Success"
    by code_simp
  have p: "whole_number (JNum 40) = Some 40"
    by (simp add: whole_number_def)
  have before: "map_option seats (courses fresh_store (ObjectId course_A)) = Some 1"
    "map_option enrollmentCount (courses fresh_store (ObjectId course_A)) = Some 0"
    by (simp_all add: fresh_store_def one_seat_def)
  from other_writers_of_capacity [of whole_number whole_number fresh_store "''teacher@hub.io''"
      "''instructor''" course_A "[(''seats'', JNum 40)]" 99 "ObjectId course_A" "Some ''approved''"]
    other_writers_of_capacity [of whole_number whole_number fresh_store "''teacher@hub.io''"
      "''instructor''" course_A "[(''courseTitle'', JStr ''Logic II'')]" 99 "ObjectId course_A"
      "Some ''approved''"]
    other_writers_of_capacity [of whole_number whole_number fresh_store "''teacher@hub.io''"
      "''instructor''" course_A "[(''seats'', JNum (- 5))]" 99 "ObjectId course_A" "Some ''approved''"]
    ok40 okT bad p before
  show ?thesis by simp
qed

text \<open>
  C5 as stated fails: the owner's course update with body \<open>{seats: 40}\<close> changes
  \<open>seats\<close> from 1 to 40, through neither admission path.
\<close>

theorem seats_written_by_update_counterexample:
  "map_option seats (courses fresh_store (ObjectId course_A)) = Some 1
   \<and> snd (put_course whole_number whole_number fresh_store ''teacher@hub.io'' ''instructor''
            course_A [(''seats'', JNum 40)] 99)
       = Reply 200 ''Course updated successfully''
   \<and> map_option seats
        (courses (fst (put_course whole_number whole_number fresh_store ''teacher@hub.io''
                         ''instructor'' course_A [(''seats'', JNum 40)] 99)) (ObjectId course_A))
       = Some 40"
  by code_simp

subsection \<open>Non-negative seats\<close>

text \<open>Enroll, unenroll, course update, status change and course deletion each keep
  a non-negative \<open>seats\<close> non-negative.\<close>

lemma claim_seat_nonneg:
  assumes "claim_seat cid m = Some (m', x, y)" and "\<forall>c. m k = Some c \<longrightarrow> 0 \<le> seats c"
  shows "\<forall>c'. m' k = Some c' \<longrightarrow> 0 \<le> seats c'"
  using assms by (auto simp: claim_seat_eq split: option.splits if_splits)

lemma enroll_reserve_courses:
  "\<exists>cs x y. claim_seat (fst (snd t)) (courses s) = Some (cs, x, y)
     \<and> courses (fst (enroll_reserve s t now)) = cs"
  by (cases t) (auto simp: enroll_reserve_def claim_seat_eq split: option.splits prod.splits)

lemma enroll_reserve_seats_nonneg:
  assumes "\<forall>c. courses s k = Some c \<longrightarrow> 0 \<le> seats c"
  shows "\<forall>c'. courses (fst (enroll_reserve s t now)) k = Some c' \<longrightarrow> 0 \<le> seats c'"
proof -
  from enroll_reserve_courses [of t s now] obtain cs x y where
    cl: "claim_seat (fst (snd t)) (courses s) = Some (cs, x, y)"
    and cs: "courses (fst (enroll_reserve s t now)) = cs" by blast
  from claim_seat_nonneg [OF cl assms] show ?thesis
    by (simp add: cs)
qed

lemma post_enrollments_seats_nonneg:
  assumes "\<forall>c. courses s k = Some c \<longrightarrow> 0 \<le> seats c"
  shows "\<forall>c'. courses (fst (post_enrollments s caller req now)) k = Some c' \<longrightarrow> 0 \<le> seats c'"
  using assms enroll_reserve_seats_nonneg [OF assms]
  by (simp add: post_enrollments_def split: sum.splits)

lemma delete_enrollments_seats_nonneg:
  assumes "\<forall>c. courses s k = Some c \<longrightarrow> 0 \<le> seats c"
  shows "\<forall>c'. courses (fst (delete_enrollments s caller e cid)) k = Some c' \<longrightarrow> 0 \<le> seats c'"
  using assms
  by (auto simp: delete_enrollments_def courses_updateOne_def inc_fields_def
      split: prod.splits option.splits if_splits)


lemma put_course_seats_nonneg:
  assumes "\<forall>c. courses s k = Some c \<longrightarrow> 0 \<le> seats c"
  shows "\<forall>c'. courses (fst (put_course parseInt parseFloat s e r i body now)) k = Some c'
           \<longrightarrow> 0 \<le> seats c'"
  using put_course_cases [of parseInt parseFloat s e r i body now]
proof (elim disjE exE conjE)
  assume "fst (put_course parseInt parseFloat s e r i body now) = s"
  with assms show ?thesis by simp
next
  fix c c' d d'
  assume c: "courses s (ObjectId i) = Some c"
    and ns: "normalise_seats parseInt (strip_protected body) = Some d"
    and np: "normalise_price parseFloat d = Some d'"
    and ms: "mongo_set (AList.update ''updatedAt'' (JNum now) d') c = Some c'"
    and res: "fst (put_course parseInt parseFloat s e r i body now)
                = s\<lparr>courses := (courses s)(ObjectId i \<mapsto> c')\<rparr>"
  show ?thesis
  proof (cases "k = ObjectId i")
    case False
    with assms show ?thesis by (simp add: res)
  next
    case True
    from assms c True have "0 \<le> seats c" by simp
    with put_update_seats [OF ns np ms] have "0 \<le> seats c'"
      by (cases "map_of body ''seats''") auto
    with True show ?thesis by (simp add: res)
  qed
qed

lemma patch_status_seats_nonneg:
  assumes "\<forall>c. courses s k = Some c \<longrightarrow> 0 \<le> seats c"
  shows "\<forall>c'. courses (fst (patch_admin_courses_status s i st)) k = Some c' \<longrightarrow> 0 \<le> seats c'"
  using patch_status_capacity [of s i st k] assms
  by (cases "courses s k") auto

lemma delete_courses_seats_nonneg:
  assumes "\<forall>c. courses s k = Some c \<longrightarrow> 0 \<le> seats c"
  shows "\<forall>c'. courses (fst (delete_courses s e r i)) k = Some c' \<longrightarrow> 0 \<le> seats c'"
  using delete_courses_rest [of s e r i k] assms by auto

text \<open>
  C4. The handlers above keep \<open>seats\<close> non-negative. PATCH /courses/:id/seats of
  index.js does not: on the sold-out course (\<open>seats = 0\<close>) the body
  \<open>{increment: -1}\<close> is answered with 200 and leaves \<open>seats = -1\<close>.
\<close>

theorem patch_seats_goes_negative:
  "map_option seats (courses sold_out_store (ObjectId course_A)) = Some 0
   \<and> snd (patch_courses_seats sold_out_store course_A (Some (JNum (- 1))))
       = Reply 200 ''Seat count updated successfully''
   \<and> map_option seats
        (courses (fst (patch_courses_seats sold_out_store course_A (Some (JNum (- 1)))))
           (ObjectId course_A)) = Some (- 1)"
  by code_simp

subsection \<open>Unenrollment\<close>

lemma deleteOne_none: "find P xs = None \<Longrightarrow> deleteOne P xs = (xs, 0)"
  by (induction xs) (auto split: if_splits)

lemma deleteOne_some: "find P xs \<noteq> None \<Longrightarrow> snd (deleteOne P xs) = 1"
  by (induction xs) (auto split: prod.splits)

lemma deleteOne_length: "find P xs \<noteq> None \<Longrightarrow> Suc (length (fst (deleteOne P xs))) = length xs"
  by (induction xs) (auto split: prod.splits)

lemma release_seat_eq:
  "courses_updateOne oid (\<lambda>c. True) (inc_fields 1 (- 1)) m =
     (case m oid of
        None \<Rightarrow> Some (m, 0, 0)
      | Some c \<Rightarrow> Some (m(oid \<mapsto> c\<lparr>seats := seats c + 1, enrollmentCount := enrollmentCount c - 1\<rparr>), 1, 1))"
proof (cases "m oid")
  case None
  then show ?thesis by (simp add: courses_updateOne_def)
next
  case (Some c)
  have "c\<lparr>seats := seats c + 1, enrollmentCount := enrollmentCount c - 1\<rparr> \<noteq> c"
  proof
    assume "c\<lparr>seats := seats c + 1, enrollmentCount := enrollmentCount c - 1\<rparr> = c"
    then have "seats (c\<lparr>seats := seats c + 1, enrollmentCount := enrollmentCount c - 1\<rparr>) = seats c"
      by simp
    then show False by simp
  qed
  with Some show ?thesis
    by (simp add: courses_updateOne_def inc_fields_def)
qed

text \<open>
  C8 (amended). Take an unenroll request whose caller email matches the target email and
  whose \<open>courseId\<close> is a well-formed ObjectId. If no enrollment record matches
  (userEmail, courseId), the reply is 404 \<open>Not enrolled\<close> and the store, so every
  course, is unchanged. Otherwise the first matching record is deleted, the reply is 200,
  and the course gets \<open>seats + 1\<close> and \<open>enrollmentCount - 1\<close>; when the course is
  gone this step changes nothing and the reply is still 200.
\<close>

theorem unenroll_outcome:
  assumes "ObjectId_isValid cid"
  shows "(find (same_enrollment e cid) (enrollments s) = None \<longrightarrow>
            delete_enrollments s e e cid = (s, Reply 404 ''Not enrolled''))
       \<and> (find (same_enrollment e cid) (enrollments s) \<noteq> None \<longrightarrow>
            snd (delete_enrollments s e e cid) = Reply 200 ''Unenrolled''
          \<and> enrollments (fst (delete_enrollments s e e cid))
              = fst (deleteOne (same_enrollment e cid) (enrollments s))
          \<and> Suc (length (enrollments (fst (delete_enrollments s e e cid)))) = length (enrollments s)
          \<and> courses (fst (delete_enrollments s e e cid))
              = (case courses s (ObjectId cid) of
                   None \<Rightarrow> courses s
                 | Some c \<Rightarrow> (courses s)(ObjectId cid \<mapsto>
                               c\<lparr>seats := seats c + 1, enrollmentCount := enrollmentCount c - 1\<rparr>)))"
proof (intro conjI impI)
  assume "find (same_enrollment e cid) (enrollments s) = None"
  then show "delete_enrollments s e e cid = (s, Reply 404 ''Not enrolled'')"
    using assms by (simp add: delete_enrollments_def deleteOne_none)
next
  assume found: "find (same_enrollment e cid) (enrollments s) \<noteq> None"
  obtain es n where d: "deleteOne (same_enrollment e cid) (enrollments s) = (es, n)"
    by (cases "deleteOne (same_enrollment e cid) (enrollments s)")
  with deleteOne_some [OF found] have n: "n = 1" by simp
  have eq: "delete_enrollments s e e cid =
      (case courses s (ObjectId cid) of
         None \<Rightarrow> (s\<lparr>courses := courses s, enrollments := es\<rparr>, Reply 200 ''Unenrolled'')
       | Some c \<Rightarrow> (s\<lparr>courses := (courses s)(ObjectId cid \<mapsto>
                               c\<lparr>seats := seats c + 1, enrollmentCount := enrollmentCount c - 1\<rparr>),
                      enrollments := es\<rparr>, Reply 200 ''Unenrolled''))"
    using assms d n by (simp add: delete_enrollments_def release_seat_eq split: option.splits)
  show "snd (delete_enrollments s e e cid) = Reply 200 ''Unenrolled''"
    by (simp add: eq split: option.splits)
  show "enrollments (fst (delete_enrollments s e e cid))
          = fst (deleteOne (same_enrollment e cid) (enrollments s))"
    by (simp add: eq d split: option.splits)
  then show "Suc (length (enrollments (fst (delete_enrollments s e e cid)))) = length (enrollments s)"
    using deleteOne_length [OF found] by simp
  show "courses (fst (delete_enrollments s e e cid))
          = (case courses s (ObjectId cid) of
               None \<Rightarrow> courses s
             | Some c \<Rightarrow> (courses s)(ObjectId cid \<mapsto>
                           c\<lparr>seats := seats c + 1, enrollmentCount := enrollmentCount c - 1\<rparr>))"
    by (simp add: eq split: option.splits)
qed

lemma course_A_valid: "ObjectId_isValid course_A"
  by (simp add: course_A_def ObjectId_isValid_def is_hex_def)

text \<open>The scenario of the specification: \<open>seats = 3, enrollmentCount = 2\<close> become
  \<open>seats = 4, enrollmentCount = 1\<close> when ann unenrolls; cat, who is not enrolled, gets 404.\<close>

theorem unenroll_outcome_witness:
  "ObjectId_isValid course_A
   \<and> find (same_enrollment ''ann@hub.io'' course_A) (enrollments three_two_store) \<noteq> None
   \<and> courses three_two_store (ObjectId course_A) = Some (one_seat\<lparr>seats := 3, enrollmentCount := 2\<rparr>)
   \<and> snd (delete_enrollments three_two_store ''ann@hub.io'' ''ann@hub.io'' course_A)
       = Reply 200 ''Unenrolled''
   \<and> courses (fst (delete_enrollments three_two_store ''ann@hub.io'' ''ann@hub.io'' course_A))
        (ObjectId course_A) = Some (one_seat\<lparr>seats := 4, enrollmentCount := 1\<rparr>)
   \<and> map userEmail (enrollments (fst (delete_enrollments three_two_store ''ann@hub.io'' ''ann@hub.io'' course_A)))
       = [''bob@hub.io'']
   \<and> find (same_enrollment ''cat@hub.io'' course_A) (enrollments three_two_store) = None
   \<and> delete_enrollments three_two_store ''cat@hub.io'' ''cat@hub.io'' course_A
       = (three_two_store, Reply 404 ''Not enrolled'')"
proof -
  have found: "find (same_enrollment ''ann@hub.io'' course_A) (enrollments three_two_store) \<noteq> None"
    by (simp add: three_two_store_def same_enrollment_def)
  have missing: "find (same_enrollment ''cat@hub.io'' course_A) (enrollments three_two_store) = None"
    by (simp add: three_two_store_def same_enrollment_def)
  have c: "courses three_two_store (ObjectId course_A) = Some (one_seat\<lparr>seats := 3, enrollmentCount := 2\<rparr>)"
    by (simp add: three_two_store_def)
  have del: "map userEmail (fst (deleteOne (same_enrollment ''ann@hub.io'' course_A) (enrollments three_two_store)))
       = [''bob@hub.io'']"
    by (simp add: three_two_store_def same_enrollment_def)
  from unenroll_outcome [OF course_A_valid, of "''ann@hub.io''" three_two_store]
    unenroll_outcome [OF course_A_valid, of "''cat@hub.io''" three_two_store]
    found missing c del course_A_valid
  show ?thesis by simp
qed

text \<open>
  C8 as stated has no condition on \<open>courseId\<close>. With a malformed one, and no enrollment
  record matching the pair, the reply is 400 \<open>Invalid ID\<close>, not NotFound.
\<close>

theorem unenroll_malformed_counterexample:
  "find (same_enrollment ''ann@hub.io'' ''not-an-id'') (enrollments fresh_store) = None
   \<and> delete_enrollments fresh_store ''ann@hub.io'' ''ann@hub.io'' ''not-an-id''
       = (fresh_store, Reply 400 ''Invalid ID'')
   \<and> kind_of (Reply 400 ''Invalid ID'') = InvalidInput"
  by (simp add: delete_enrollments_def ObjectId_isValid_def fresh_store_def)

subsection \<open>The status check\<close>

lemma unapproved_never_admitted:
  assumes "courses s (ObjectId cid) = Some c" and "status c = Some st" and "st \<noteq> JStr ''approved''"
    and "body_courseId req = Some cid"
  shows "fst (post_enrollments s caller req now) = s
       \<and> kind_of (snd (post_enrollments s caller req now))
           \<in> set [InvalidInput, Forbidden, AlreadyEnrolled, QuotaExceeded, CourseNotApproved]"
proof (cases "fields_present req")
  case False
  then show ?thesis
    by (simp add: post_enrollments_def enroll_admit_missing)
next
  case True
  with assms(4) obtain u t where
    req: "req = \<lparr>body_userEmail = Some u, body_courseId = Some cid, body_courseTitle = Some t\<rparr>"
    and ne: "u \<noteq> []" "cid \<noteq> []" "t \<noteq> []"
    by (cases req) (auto simp: fields_present_def falsy_def split: option.splits)
  show ?thesis
    using assms(1-3) by (simp add: req post_enrollments_def enroll_admit_present [OF ne])
qed

text \<open>
  C7. Take an enroll request against an existing course. If the request has passed the
  checks before the status check (fields present, identity matched, course id
  well-formed, no enrollment yet, under the quota) and the course has no \<open>status\<close>
  field, the status check passes: the reply is never \<open>Course not approved\<close>, and with
  \<open>seats > 0\<close> the enrollment succeeds with 201, one seat claimed. If the course has a
  \<open>status\<close> other than the string \<open>approved\<close>, such a request is answered 400
  \<open>Course not approved\<close> with the store unchanged; and no request whatever for that
  course is admitted: it is refused with CourseNotApproved or by one of the checks before.
\<close>

theorem status_check_admission:
  assumes "courses s (ObjectId cid) = Some c"
  shows "(u \<noteq> [] \<and> t \<noteq> [] \<and> ObjectId_isValid cid
          \<and> find (same_enrollment u cid) (enrollments s) = None
          \<and> countDocuments (\<lambda>e. userEmail e = u) (enrollments s) < 3 \<longrightarrow>
            (status c = None \<longrightarrow>
               snd (post_enrollments s u
                      \<lparr>body_userEmail = Some u, body_courseId = Some cid, body_courseTitle = Some t\<rparr> now)
                 \<noteq> Reply 400 ''Course not approved'')
          \<and> (status c = None \<and> 0 < seats c \<longrightarrow>
               post_enrollments s u
                 \<lparr>body_userEmail = Some u, body_courseId = Some cid, body_courseTitle = Some t\<rparr> now
               = (s\<lparr>courses := (courses s)(ObjectId cid \<mapsto>
                         c\<lparr>seats := seats c - 1, enrollmentCount := enrollmentCount c + 1\<rparr>),
                    enrollments := enrollments s @
                      [\<lparr>e_id = fresh_id (enrollments s), userEmail = u, courseId = cid,
                        courseTitle = t, enrolledAt = now\<rparr>]\<rparr>,
                  ReplyId 201 ''Enrolled'' (fresh_id (enrollments s))))
          \<and> (\<forall>st. status c = Some st \<and> st \<noteq> JStr ''approved'' \<longrightarrow>
               post_enrollments s u
                 \<lparr>body_userEmail = Some u, body_courseId = Some cid, body_courseTitle = Some t\<rparr> now
               = (s, Reply 400 ''Course not approved'')))
       \<and> (\<forall>st caller req. status c = Some st \<and> st \<noteq> JStr ''approved'' \<and> body_courseId req = Some cid \<longrightarrow>
            fst (post_enrollments s caller req now) = s
          \<and> kind_of (snd (post_enrollments s caller req now))
              \<in> set [InvalidInput, Forbidden, AlreadyEnrolled, QuotaExceeded, CourseNotApproved])"
proof (intro conjI impI allI)
  assume pre: "u \<noteq> [] \<and> t \<noteq> [] \<and> ObjectId_isValid cid
          \<and> find (same_enrollment u cid) (enrollments s) = None
          \<and> countDocuments (\<lambda>e. userEmail e = u) (enrollments s) < 3"
  let ?req = "\<lparr>body_userEmail = Some u, body_courseId = Some cid, body_courseTitle = Some t\<rparr>"
  from pre have "cid \<noteq> []"
    by (auto simp: ObjectId_isValid_def)
  with pre assms have admit: "enroll_admit s u ?req =
      (if status c \<noteq> None \<and> status c \<noteq> Some (JStr ''approved'') then Inl (Reply 400 ''Course not approved'')
       else if seats c \<le> 0 then Inl (Reply 400 ''No seats available'')
       else Inr (u, cid, t))"
    by (simp add: enroll_admit_present)
  have full: "post_enrollments s u ?req now = (s, Reply 400 ''No seats available'')"
    if "status c = None" "seats c \<le> 0"
    using that by (simp add: post_enrollments_def admit)
  have enrolled: "post_enrollments s u ?req now
            = (s\<lparr>courses := (courses s)(ObjectId cid \<mapsto>
                      c\<lparr>seats := seats c - 1, enrollmentCount := enrollmentCount c + 1\<rparr>),
                 enrollments := enrollments s @
                   [\<lparr>e_id = fresh_id (enrollments s), userEmail = u, courseId = cid,
                     courseTitle = t, enrolledAt = now\<rparr>]\<rparr>,
               ReplyId 201 ''Enrolled'' (fresh_id (enrollments s)))"
    if "status c = None" "0 < seats c"
    using that assms
    by (simp add: post_enrollments_def admit enroll_reserve_def claim_seat_eq
        enrollments_insertOne_def Let_def)
  {
    assume "status c = None"
    then show "snd (post_enrollments s u ?req now) \<noteq> Reply 400 ''Course not approved''"
      using full enrolled by (cases "0 < seats c") simp_all
  next
    assume "status c = None \<and> 0 < seats c"
    then show "post_enrollments s u ?req now
            = (s\<lparr>courses := (courses s)(ObjectId cid \<mapsto>
                      c\<lparr>seats := seats c - 1, enrollmentCount := enrollmentCount c + 1\<rparr>),
                 enrollments := enrollments s @
                   [\<lparr>e_id = fresh_id (enrollments s), userEmail = u, courseId = cid,
                     courseTitle = t, enrolledAt = now\<rparr>]\<rparr>,
               ReplyId 201 ''Enrolled'' (fresh_id (enrollments s)))"
      using enrolled by simp
  next
    fix st assume "status c = Some st \<and> st \<noteq> JStr ''approved''"
    then show "post_enrollments s u ?req now = (s, Reply 400 ''Course not approved'')"
      by (simp add: post_enrollments_def admit)
  }
next
  fix st :: jv and caller :: string and req :: enroll_req
  assume "status c = Some st \<and> st \<noteq> JStr ''approved'' \<and> body_courseId req = Some cid"
  with unapproved_never_admitted [OF assms, of st req caller now]
  show "fst (post_enrollments s caller req now) = s" by simp
next
  fix st :: jv and caller :: string and req :: enroll_req
  assume "status c = Some st \<and> st \<noteq> JStr ''approved'' \<and> body_courseId req = Some cid"
  with unapproved_never_admitted [OF assms, of st req caller now]
  show "kind_of (snd (post_enrollments s caller req now))
              \<in> set [InvalidInput, Forbidden, AlreadyEnrolled, QuotaExceeded, CourseNotApproved]"
    by simp
qed

text \<open>The legacy course without a status admits ann; the same course with status
  \<open>pending\<close> refuses her.\<close>

theorem status_check_admission_witness:
  "find (same_enrollment ''ann@hub.io'' course_A) (enrollments fresh_store) = None
   \<and> countDocuments (\<lambda>e. userEmail e = ''ann@hub.io'') (enrollments fresh_store) < 3
   \<and> courses fresh_store (ObjectId course_A) = Some one_seat
   \<and> status one_seat = None \<and> 0 < seats one_seat
   \<and> snd (post_enrollments fresh_store ''ann@hub.io'' (enroll_in_A ''ann@hub.io'') 10)
       = ReplyId 201 ''Enrolled'' 1
   \<and> courses pending_store (ObjectId course_A) = Some (one_seat\<lparr>status := Some (JStr ''pending'')\<rparr>)
   \<and> post_enrollments pending_store ''ann@hub.io'' (enroll_in_A ''ann@hub.io'') 10
       = (pending_store, Reply 400 ''Course not approved'')"
proof -
  have a: "find (same_enrollment ''ann@hub.io'' course_A) (enrollments fresh_store) = None"
    "countDocuments (\<lambda>e. userEmail e = ''ann@hub.io'') (enrollments fresh_store) < 3"
    and ca: "courses fresh_store (ObjectId course_A) = Some one_seat"
    by (simp_all add: fresh_store_def countDocuments_def)
  have b: "find (same_enrollment ''ann@hub.io'' course_A) (enrollments pending_store) = None"
    "countDocuments (\<lambda>e. userEmail e = ''ann@hub.io'') (enrollments pending_store) < 3"
    and cb: "courses pending_store (ObjectId course_A) = Some (one_seat\<lparr>status := Some (JStr ''pending'')\<rparr>)"
    by (simp_all add: pending_store_def fresh_store_def countDocuments_def)
  have f: "fresh_id (enrollments fresh_store) = 1"
    by (simp add: fresh_store_def fresh_id_def)
  from status_check_admission [OF ca, of "''ann@hub.io''" "''Logic''" 10]
    status_check_admission [OF cb, of "''ann@hub.io''" "''Logic''" 10] a b ca cb f course_A_valid
  show ?thesis
    by (simp add: enroll_in_A_def one_seat_def)
qed

subsection \<open>Role resolution\<close>



subsection \<open>Course deletion\<close>

lemma delete_courses_found:
  assumes "ObjectId_isValid i" and "courses s (ObjectId i) = Some c"
  shows "delete_courses s e userRole i =
     (if userRole = ''instructor'' \<and> instructorEmail c \<noteq> e
      then (s, Reply 403 ''Forbidden: Not your course'')
      else (s\<lparr>courses := (courses s)(ObjectId i := None),
              enrollments := filter (\<lambda>x. courseId x \<noteq> i) (enrollments s),
              reviews := filter (\<lambda>x. courseObjectId x \<noteq> ObjectId i) (reviews s)\<rparr>,
            Reply 200 ''Course and related data deleted''))"
  using assms by (simp add: delete_courses_def courses_deleteOne_def deleteMany_def)

text \<open>
  The authorization of a deletion request for an existing course. A caller whose resolved
  role is \<open>instructor\<close> and whose email differs from the course's \<open>instructorEmail\<close>
  gets 403 and the store is unchanged. A caller whose resolved role is \<open>admin\<close> gets
  200, whoever owns the course, and so does the instructor who owns it: the course is
  removed, with every review whose \<open>courseObjectId\<close> is its ObjectId, and with every
  enrollment whose \<open>courseId\<close> is the id as the request spells it.
\<close>

lemma delete_courses_route_outcome:
  assumes "ObjectId_isValid i" and "courses s (ObjectId i) = Some c"
  shows "(getUserRole False (users s) (Some e) = Proceed ''instructor'' \<and> instructorEmail c \<noteq> e \<longrightarrow>
            delete_courses_route s False (Some e) i = (s, Reply 403 ''Forbidden: Not your course''))
       \<and> (getUserRole False (users s) (Some e) = Proceed ''admin''
          \<or> getUserRole False (users s) (Some e) = Proceed ''instructor'' \<and> instructorEmail c = e \<longrightarrow>
            delete_courses_route s False (Some e) i =
              (s\<lparr>courses := (courses s)(ObjectId i := None),
                 enrollments := filter (\<lambda>x. courseId x \<noteq> i) (enrollments s),
                 reviews := filter (\<lambda>x. courseObjectId x \<noteq> ObjectId i) (reviews s)\<rparr>,
               Reply 200 ''Course and related data deleted''))"
proof (intro conjI impI)
  assume "getUserRole False (users s) (Some e) = Proceed ''instructor'' \<and> instructorEmail c \<noteq> e"
  then show "delete_courses_route s False (Some e) i = (s, Reply 403 ''Forbidden: Not your course'')"
    by (simp add: delete_courses_route_def verifyInstructor_def delete_courses_found [OF assms])
next
  assume "getUserRole False (users s) (Some e) = Proceed ''admin''
          \<or> getUserRole False (users s) (Some e) = Proceed ''instructor'' \<and> instructorEmail c = e"
  then show "delete_courses_route s False (Some e) i =
              (s\<lparr>courses := (courses s)(ObjectId i := None),
                 enrollments := filter (\<lambda>x. courseId x \<noteq> i) (enrollments s),
                 reviews := filter (\<lambda>x. courseObjectId x \<noteq> ObjectId i) (reviews s)\<rparr>,
               Reply 200 ''Course and related data deleted'')"
    by (auto simp: delete_courses_route_def verifyInstructor_def delete_courses_found [OF assms])
qed

text \<open>On the sold-out course of teacher: rival, another instructor, is refused; root, an
  admin, who spells the id as ann's enrollment has it, deletes the course with ann's
  enrollment and her review.\<close>

lemma delete_same_spelling:
  "delete_courses_route sold_out_store False (Some ''rival@hub.io'') course_A
       = (sold_out_store, Reply 403 ''Forbidden: Not your course'')
   \<and> snd (delete_courses_route sold_out_store False (Some ''root@hub.io'') course_A)
       = Reply 200 ''Course and related data deleted''
   \<and> courses (fst (delete_courses_route sold_out_store False (Some ''root@hub.io'') course_A))
        (ObjectId course_A) = None
   \<and> enrollments (fst (delete_courses_route sold_out_store False (Some ''root@hub.io'') course_A)) = []
   \<and> reviews (fst (delete_courses_route sold_out_store False (Some ''root@hub.io'') course_A)) = []"
proof -
  have c: "courses sold_out_store (ObjectId course_A) = Some (one_seat\<lparr>seats := 0, enrollmentCount := 1\<rparr>)"
    by (simp add: sold_out_store_def)
  have rival: "getUserRole False (users sold_out_store) (Some ''rival@hub.io'') = Proceed ''instructor''"
    and root: "getUserRole False (users sold_out_store) (Some ''root@hub.io'') = Proceed ''admin''"
    by (simp_all add: getUserRole_def sold_out_store_def fresh_store_def role_or_student_def)
  have other: "instructorEmail (one_seat\<lparr>seats := 0, enrollmentCount := 1\<rparr>) \<noteq> ''rival@hub.io''"
    by (simp add: one_seat_def)
  have es: "filter (\<lambda>x. courseId x \<noteq> course_A) (enrollments sold_out_store) = []"
    and rs: "filter (\<lambda>x. courseObjectId x \<noteq> ObjectId course_A) (reviews sold_out_store) = []"
    by (simp_all add: sold_out_store_def fresh_store_def)
  from delete_courses_route_outcome [OF course_A_valid c, of "''rival@hub.io''"]
    delete_courses_route_outcome [OF course_A_valid c, of "''root@hub.io''"]
    c rival root other es rs
  show ?thesis by simp
qed

text \<open>
  C6. The handler finds and deletes the course by its ObjectId, and the reviews by the
  same ObjectId, but the enrollments by the string of the request:
  \<open>deleteMany({ courseId: id })\<close>. Ann's enrollment has the course id in lower-case
  digits. The admin's request spells the same id in upper-case digits: it is well-formed,
  the course is found and deleted, the reply is 200, the review is deleted, and the
  enrollment is still there, for a course that no longer exists.
\<close>

theorem delete_cascade_misses_enrollment:
  "ObjectId_isValid course_A_upper
   \<and> map (\<lambda>x. (userEmail x, courseId x)) (enrollments sold_out_store) = [(''ann@hub.io'', course_A)]
   \<and> courses sold_out_store (ObjectId course_A) \<noteq> None
   \<and> snd (delete_courses_route sold_out_store False (Some ''root@hub.io'') course_A_upper)
       = Reply 200 ''Course and related data deleted''
   \<and> courses (fst (delete_courses_route sold_out_store False (Some ''root@hub.io'') course_A_upper))
        (ObjectId course_A) = None
   \<and> map (\<lambda>x. (userEmail x, courseId x))
        (enrollments (fst (delete_courses_route sold_out_store False (Some ''root@hub.io'')
                             course_A_upper)))
       = [(''ann@hub.io'', course_A)]
   \<and> reviews (fst (delete_courses_route sold_out_store False (Some ''root@hub.io'') course_A_upper))
       = []"
  by code_simp

end
